theory Spec2Isabelle
  imports Complex_Main "HOL-Library.Char_ord" "HOL-Library.List_Lexorder"
begin

section \<open>Daemon reuse: \<open>can_run_as_daemon\<close>\<close>

text \<open>
  Python's \<open>needle in haystack\<close> on strings: the needle occurs as a contiguous run.
\<close>

primrec is_prefix :: "string \<Rightarrow> string \<Rightarrow> bool" where
  "is_prefix [] ys = True"
| "is_prefix (x # xs) ys = (case ys of [] \<Rightarrow> False | y # ys' \<Rightarrow> x = y \<and> is_prefix xs ys')"

primrec str_contains :: "string \<Rightarrow> string \<Rightarrow> bool" where
  "str_contains n [] = (n = [])"
| "str_contains n (h # hs) = (is_prefix n (h # hs) \<or> str_contains n hs)"

text \<open>
  The fields of a node description that \<open>can_run_as_daemon\<close> reads: the executable, the
  channel list (of each channel only the device name), and the two lists of network
  peers, \<open>connect\<close> and \<open>bind\<close>.
\<close>

record zvm_channel =
  device :: string

record zvm_node =
  exe :: string
  channels :: "zvm_channel list"
  connect :: "string list"
  bind :: "string list"

text \<open>The loop over \<open>zip(channels, daemon_conf.channels)\<close>: it stops with the shorter list.\<close>

fun zip_devices_ok :: "zvm_channel list \<Rightarrow> zvm_channel list \<Rightarrow> bool" where
  "zip_devices_ok (n # ns) (d # ds) =
     (if \<not> str_contains (device n) (device d) then False else zip_devices_ok ns ds)"
| "zip_devices_ok _ _ = True"

definition can_run_as_daemon :: "zvm_node \<Rightarrow> zvm_node \<Rightarrow> bool" where
  "can_run_as_daemon node_conf daemon_conf =
     (if exe node_conf \<noteq> exe daemon_conf then False
      else if channels node_conf = [] then False
      else if length (channels node_conf) \<noteq> length (channels daemon_conf) then False
      else if connect node_conf \<noteq> [] \<or> bind node_conf \<noteq> [] then False
      else zip_devices_ok (sort_key device (channels node_conf)) (channels daemon_conf))"

text \<open>
  The predicate as the specification words it: equal executables, equal channel counts,
  every sorted node channel has some daemon channel whose device contains its device,
  and no networking.
\<close>

definition uses_network :: "zvm_node \<Rightarrow> bool" where
  "uses_network node_conf = (connect node_conf \<noteq> [] \<or> bind node_conf \<noteq> [])"

definition spec_can_reuse :: "zvm_node \<Rightarrow> zvm_node \<Rightarrow> bool" where
  "spec_can_reuse node_conf daemon_conf =
     (exe node_conf = exe daemon_conf
      \<and> length (channels node_conf) = length (channels daemon_conf)
      \<and> list_all (\<lambda>n. list_ex (\<lambda>d. str_contains (device n) (device d)) (channels daemon_conf))
           (sort_key device (channels node_conf))
      \<and> \<not> uses_network node_conf)"

section \<open>Channel resolution in \<open>zerovm_query\<close>\<close>

text \<open>
  The dictionary \<open>nexe_headers\<close> of \<open>zerovm_query\<close>, one field per key. The key
  \<open>x-zerovm-daemon\<close> is absent until a report sets it.
\<close>

record nexe_headers =
  x_nexe_retcode :: int
  x_nexe_status :: string
  x_nexe_etag :: string
  x_nexe_validation :: int
  x_nexe_cdr_line :: string
  x_nexe_system :: string
  x_nexe_policy :: string
  x_zerovm_daemon :: "int option"

definition initial_nexe_headers :: "string \<Rightarrow> nexe_headers" where
  "initial_nexe_headers policy_name =
     \<lparr>x_nexe_retcode = 0, x_nexe_status = ''Zerovm did not run'', x_nexe_etag = [],
      x_nexe_validation = 0, x_nexe_cdr_line = ''0 0 0 0 0 0 0 0 0 0'', x_nexe_system = [],
      x_nexe_policy = policy_name, x_zerovm_daemon = None\<rparr>"

text \<open>
  A response built by the middleware: status, body, and the nexe headers when the response
  was given them (\<open>headers=nexe_headers\<close>, \<open>resp.headers = nexe_headers\<close> or
  \<open>update_headers(response, nexe_headers)\<close>); a response built without them carries none
  of the \<open>x-nexe-*\<close> headers.
\<close>

record response =
  status :: nat
  body :: string
  headers :: "nexe_headers option"

text \<open>
  A request ends either with a raised HTTP error response or with an uncaught Python
  exception, which the WSGI entry point turns into a 500 response.
\<close>

datatype failure = HTTPError response | PyError string

text \<open>
  Modelled from the spec: the constants \<open>ACCESS_*\<close> of \<open>zerocloud.common\<close> are not among
  the sources; section 3 gives \<open>access\<close> as a bitfield of the flags READABLE, WRITABLE,
  CDR, NETWORK and RANDOM. The bitfield is the set of flags that are on, and
  \<open>access & ACCESS_X\<close> is truthy exactly when \<open>X\<close> is in the set.
\<close>

datatype access_flag = READABLE | WRITABLE | CDR | NETWORK | RANDOM

text \<open>
  The result of \<open>parse_location\<close> (of \<open>zerocloud.common\<close>, not among the sources): the
  function is a parameter of the model, its results are objects of one of the classes
  below. Every location has a \<open>url\<close> and a \<open>path\<close>; only a \<open>SwiftPath\<close> has \<open>container\<close>
  and \<open>obj\<close>.
\<close>

datatype location =
    SwiftPath string string string string
  | ImagePath string string string
  | OtherPath string string

fun loc_url :: "location \<Rightarrow> string" where
  "loc_url (SwiftPath u p c ob) = u"
| "loc_url (ImagePath u im p) = u"
| "loc_url (OtherPath u p) = u"

fun loc_path :: "location \<Rightarrow> string" where
  "loc_path (SwiftPath u p c ob) = p"
| "loc_path (ImagePath u im p) = p"
| "loc_path (OtherPath u p) = p"

text \<open>
  One entry of \<open>config['channels']\<close>. The raw \<open>path\<close> is the empty string when the system
  map gives none; \<open>lpath\<close>, \<open>meta\<close>, \<open>size\<close> and \<open>path_info\<close> are keys that resolution adds.
\<close>

record channel = zvm_channel +
  path :: string
  access :: "access_flag set"
  lpath :: "string option"
  meta :: "(string \<rightharpoonup> string) option"
  ch_size :: "int option"
  path_info :: "string option"

record disk_file =
  data_file :: string
  name :: string
  metadata :: "string \<rightharpoonup> string"
  channel_device :: "string option"

record broker =
  db_file :: string

text \<open>
  \<open>LocalObject\<close>. Its \<open>channel\<close> refers to one of the channel dictionaries of the
  configuration; the reference is the index of that dictionary in \<open>config['channels']\<close>.
\<close>

record local_object =
  has_local_file :: bool
  swift_path :: location
  lo_disk_file :: "disk_file option"
  lo_broker :: "broker option"
  lo_channel :: "nat option"

text \<open>What the loop reads and never changes.\<close>

record qenv =
  parse_location :: "string \<Rightarrow> location option"
  to_int :: "string \<Rightarrow> int option"
  sysimage_devices :: "string \<rightharpoonup> string"
  rbytes :: int
  access_type :: string
  is_master :: bool
  nexe_hdrs :: nexe_headers

text \<open>
  What the loop changes: the channel dictionaries, the dictionary \<open>channels\<close> from device
  name to file path (filled from the uploaded tar before the loop), the response channel
  list (references into the channel dictionaries), the local object, and the file system,
  a map from path to content. \<open>tmp_names\<close> are the names that \<open>mkstemp\<close> will hand out.
\<close>

record qstate =
  chans :: "channel list"
  channels_d :: "string \<rightharpoonup> string"
  response_channels :: "nat list"
  local_obj :: local_object
  files :: "string \<rightharpoonup> string"
  tmp_names :: "string list"

type_synonym qresult = "failure option \<times> qstate"

text \<open>
  Modelled from the spec: \<open>is_sysimage_device\<close> and \<open>get_sysimage\<close> are methods of
  \<open>ClusterConfigParser\<close>, which is not among the sources. Section 4.4, rule 3: the device
  is a registered system-image name, and its path is \<open>sysimage_path[device]\<close>; the table is
  the dictionary that \<open>get_zerovm_sysimage_devices\<close> builds.
\<close>

definition is_sysimage_device :: "qenv \<Rightarrow> string \<Rightarrow> bool" where
  "is_sysimage_device env dev = (sysimage_devices env dev \<noteq> None)"

definition get_sysimage :: "qenv \<Rightarrow> string \<Rightarrow> string option" where
  "get_sysimage env dev = sysimage_devices env dev"

definition truthy :: "string option \<Rightarrow> bool" where
  "truthy v = (case v of None \<Rightarrow> False | Some s \<Rightarrow> s \<noteq> [])"

definition upd_chan :: "nat \<Rightarrow> (channel \<Rightarrow> channel) \<Rightarrow> qstate \<Rightarrow> qstate" where
  "upd_chan i f st = st\<lparr>chans := (chans st)[i := f (chans st ! i)]\<rparr>"

definition getsize :: "qstate \<Rightarrow> string \<Rightarrow> int option" where
  "getsize st p = (case files st p of None \<Rightarrow> None | Some c \<Rightarrow> Some (int (length c)))"

text \<open>\<open>mkstemp\<close> followed by \<open>os.close\<close>: a new empty file under the next name.\<close>

definition mkstemp :: "qstate \<Rightarrow> (string \<times> qstate) option" where
  "mkstemp st =
     (case tmp_names st of
        [] \<Rightarrow> None
      | fn # rest \<Rightarrow> Some (fn, st\<lparr>files := (files st)(fn \<mapsto> []), tmp_names := rest\<rparr>))"

text \<open>
  The branch for a channel whose path names the object of the request
  (\<open>chan_path.obj\<close> is truthy).
\<close>

definition bind_object :: "qenv \<Rightarrow> nat \<Rightarrow> qstate \<Rightarrow> qresult" where
  "bind_object env i st =
     (let ch = chans st ! i in
      case lo_disk_file (local_obj st) of
        None \<Rightarrow> (Some (PyError ''AttributeError''), st)
      | Some df \<Rightarrow>
          let r =
            (if access_type env = ''GET'' then
               (case metadata df ''Content-Length'' of
                  None \<Rightarrow> (Some (PyError ''KeyError''), st)
                | Some s \<Rightarrow>
                    (case to_int env s of
                       None \<Rightarrow> (Some (PyError ''ValueError''), st)
                     | Some input_file_size \<Rightarrow>
                         if input_file_size > rbytes env
                         then (Some (HTTPError \<lparr>status = 413, body = ''Data object too large'',
                                   headers = Some (nexe_hdrs env)\<rparr>), st)
                         else (None,
                           (upd_chan i (\<lambda>c. c\<lparr>lpath := Some (data_file df),
                                               meta := Some (metadata df),
                                               ch_size := Some input_file_size\<rparr>) st)
                           \<lparr>channels_d := (channels_d st)(device ch \<mapsto> data_file df)\<rparr>)))
             else (None, st))
          in (case r of
                (Some e, st') \<Rightarrow> (Some e, st')
              | (None, st') \<Rightarrow>
                  (None,
                   (upd_chan i (\<lambda>c. c\<lparr>path_info := Some (name df)\<rparr>) st')
                   \<lparr>local_obj := (local_obj st')
                      \<lparr>lo_disk_file :=
                         Some (df\<lparr>channel_device := Some (''/dev/'' @ device ch)\<rparr>)\<rparr>\<rparr>)))"

text \<open>The branch for a channel whose path names the container of the request.\<close>

definition bind_container :: "qenv \<Rightarrow> nat \<Rightarrow> qstate \<Rightarrow> qresult" where
  "bind_container env i st =
     (let ch = chans st ! i in
      if access_type env = ''GET'' then
        (case lo_broker (local_obj st) of
           None \<Rightarrow> (Some (PyError ''AttributeError''), st)
         | Some b \<Rightarrow>
             (case getsize st (db_file b) of
                None \<Rightarrow> (Some (PyError ''OSError''), st)
              | Some input_file_size \<Rightarrow>
                  if input_file_size > rbytes env
                  then (Some (HTTPError \<lparr>status = 413, body = ''Data object too large'',
                                   headers = Some (nexe_hdrs env)\<rparr>), st)
                  else (None,
                    (upd_chan i (\<lambda>c. c\<lparr>lpath := Some (db_file b),
                                        meta := Some Map.empty,
                                        ch_size := Some input_file_size,
                                        path_info := Some (loc_path (swift_path (local_obj st)))\<rparr>) st)
                    \<lparr>channels_d := (channels_d st)(device ch \<mapsto> db_file b)\<rparr>)))
      else (None, st))"

definition set_local_channel :: "nat \<Rightarrow> qresult \<Rightarrow> qresult" where
  "set_local_channel i r =
     (case r of
        (Some e, st) \<Rightarrow> (Some e, st)
      | (None, st) \<Rightarrow> (None, st\<lparr>local_obj := (local_obj st)\<lparr>lo_channel := Some i\<rparr>\<rparr>))"

text \<open>
  The first \<open>if\<close>/\<open>elif\<close> of the loop body: an uploaded file of the device's name, or else
  the local object of the request.
\<close>

definition bind_uploaded_or_local :: "qenv \<Rightarrow> nat \<Rightarrow> qstate \<Rightarrow> qresult" where
  "bind_uploaded_or_local env i st =
     (let ch = chans st ! i in
      case channels_d st (device ch) of
        Some p \<Rightarrow> (None, upd_chan i (\<lambda>c. c\<lparr>lpath := Some p\<rparr>) st)
      | None \<Rightarrow>
          (case parse_location env (path ch) of
             None \<Rightarrow> (None, st)
           | Some chan_path \<Rightarrow>
               if has_local_file (local_obj st)
                  \<and> loc_url chan_path = loc_url (swift_path (local_obj st))
               then
                 (case chan_path of
                    SwiftPath u p c ob \<Rightarrow>
                      set_local_channel i
                        (if ob \<noteq> [] then bind_object env i st
                         else if c \<noteq> [] then bind_container env i st
                         else (None, st))
                  | _ \<Rightarrow> (Some (PyError ''AttributeError''), st))
               else (None, st)))"

fun is_image_or_swift :: "location \<Rightarrow> bool" where
  "is_image_or_swift (SwiftPath u p c ob) = True"
| "is_image_or_swift (ImagePath u im p) = True"
| "is_image_or_swift (OtherPath u p) = False"

text \<open>
  The second \<open>if\<close>/\<open>elif\<close> chain of the loop body, entered for every channel whatever the
  first one did.
\<close>

definition assign_lpath :: "qenv \<Rightarrow> nat \<Rightarrow> qstate \<Rightarrow> qresult" where
  "assign_lpath env i st =
     (let ch = chans st ! i; chan_path = parse_location env (path ch) in
      if is_sysimage_device env (device ch)
      then (None, upd_chan i (\<lambda>c. c\<lparr>lpath := get_sysimage env (device ch)\<rparr>) st)
      else if path ch = [] \<and> \<not> truthy (lpath ch) \<and> device ch = ''stdin''
      then (None, upd_chan i (\<lambda>c. c\<lparr>lpath := Some ''/dev/null''\<rparr>) st)
      else if READABLE \<in> access ch \<or> CDR \<in> access ch
      then
        (if \<not> truthy (lpath ch)
            \<and> (case chan_path of None \<Rightarrow> True | Some cp \<Rightarrow> is_image_or_swift cp)
         then (Some (HTTPError \<lparr>status = 400,
                 body = ''Could not resolve channel path '' @ [CHR 0x22] @ path ch @ [CHR 0x22]
                        @ '' for device: '' @ device ch,
                 headers = None\<rparr>), st)
         else (None, st))
      else if WRITABLE \<in> access ch
      then
        (case mkstemp st of
           None \<Rightarrow> (Some (PyError ''OSError''), st)
         | Some (output_fn, st1) \<Rightarrow>
             let st2 = (upd_chan i (\<lambda>c. c\<lparr>lpath := Some output_fn\<rparr>) st1)
                         \<lparr>channels_d := (channels_d st1)(device ch \<mapsto> output_fn)\<rparr>
             in (None,
                 if is_master env then
                   (if chan_path = None
                    then st2\<lparr>response_channels := response_channels st2 @ [i]\<rparr>
                    else if lo_channel (local_obj st2) \<noteq> Some i
                    then st2\<lparr>response_channels := i # response_channels st2\<rparr>
                    else st2)
                 else st2))
      else if NETWORK \<in> access ch
      then
        (case chan_path of
           None \<Rightarrow> (Some (PyError ''AttributeError''), st)
         | Some cp \<Rightarrow> (None, upd_chan i (\<lambda>c. c\<lparr>lpath := Some (loc_path cp)\<rparr>) st))
      else (None, st))"

text \<open>One pass of the loop body for the channel at index \<open>i\<close>, and the loop.\<close>

definition resolve_channel :: "qenv \<Rightarrow> nat \<Rightarrow> qstate \<Rightarrow> qresult" where
  "resolve_channel env i st =
     (case bind_uploaded_or_local env i st of
        (Some e, st') \<Rightarrow> (Some e, st')
      | (None, st') \<Rightarrow> assign_lpath env i st')"

fun resolve_from :: "qenv \<Rightarrow> nat list \<Rightarrow> qstate \<Rightarrow> qresult" where
  "resolve_from env [] st = (None, st)"
| "resolve_from env (i # rest) st =
     (case resolve_channel env i st of
        (Some e, st') \<Rightarrow> (Some e, st')
      | (None, st') \<Rightarrow> resolve_from env rest st')"

definition resolve_channels :: "qenv \<Rightarrow> qstate \<Rightarrow> qresult" where
  "resolve_channels env st = resolve_from env [0..<length (chans st)] st"

text \<open>
  What one pass of the loop body for channel \<open>i\<close> leaves alone: the number of channel
  dictionaries, every other channel dictionary, the device, path and access of channel
  \<open>i\<close>, and the entries of \<open>channels\<close> for other device names.
\<close>

definition frame :: "nat \<Rightarrow> qstate \<Rightarrow> qstate \<Rightarrow> bool" where
  "frame i st st' \<longleftrightarrow>
     length (chans st') = length (chans st)
     \<and> (\<forall>k. k \<noteq> i \<longrightarrow> chans st' ! k = chans st ! k)
     \<and> device (chans st' ! i) = device (chans st ! i)
     \<and> path (chans st' ! i) = path (chans st ! i)
     \<and> access (chans st' ! i) = access (chans st ! i)
     \<and> (\<forall>d. d \<noteq> device (chans st ! i) \<longrightarrow> channels_d st' d = channels_d st d)"

text \<open>Example data: a node with one system image, and an upload of three files.\<close>

definition ex_env :: qenv where
  "ex_env = \<lparr>parse_location = (\<lambda>s. None), to_int = (\<lambda>s. None),
     sysimage_devices = [''python'' \<mapsto> ''/opt/zerovm/python.tar''],
     rbytes = 1073741824, access_type = ''GET'', is_master = True,
     nexe_hdrs = initial_nexe_headers ''Policy-0''\<rparr>"

definition ex_chan :: "string \<Rightarrow> access_flag set \<Rightarrow> channel" where
  "ex_chan dev acc = \<lparr>device = dev, path = [], access = acc, lpath = None, meta = None,
     ch_size = None, path_info = None\<rparr>"

definition ex_lo :: local_object where
  "ex_lo = \<lparr>has_local_file = False, swift_path = SwiftPath ''swift://a'' ''/a'' [] [],
     lo_disk_file = None, lo_broker = None, lo_channel = None\<rparr>"

definition ex_state :: "channel list \<Rightarrow> qstate" where
  "ex_state cs = \<lparr>chans = cs,
     channels_d = [''python'' \<mapsto> ''/srv/node/sda1/tmp/job/python'', ''input'' \<mapsto> ''/srv/node/sda1/tmp/job/input'',
                   ''output'' \<mapsto> ''/srv/node/sda1/tmp/job/output''],
     response_channels = [], local_obj = ex_lo, files = Map.empty,
     tmp_names = [''/srv/node/sda1/tmp/tmpA'', ''/srv/node/sda1/tmp/tmpB'']\<rparr>"

section \<open>The sandbox report\<close>

definition REPORT_LENGTH :: nat where "REPORT_LENGTH = 6"

definition RETCODE_MAP :: "string list" where
  "RETCODE_MAP = [''OK'', ''Error'', ''Timed out'', ''Killed'', ''Output too long'']"

text \<open>
  Python's \<open>s.split('\n', maxsplit)\<close>: cut at the first \<open>maxsplit\<close> line feeds, the rest
  stays in the last field.
\<close>

fun split_lf :: "nat \<Rightarrow> string \<Rightarrow> string list" where
  "split_lf 0 s = [s]"
| "split_lf (Suc n) s =
     (if CHR 0x0A \<in> set s
      then takeWhile (\<lambda>c. c \<noteq> CHR 0x0A) s # split_lf n (tl (dropWhile (\<lambda>c. c \<noteq> CHR 0x0A) s))
      else [s])"

text \<open>\<open>s.replace('\n', ' ').rstrip()\<close>: \<open>rstrip\<close> removes trailing ASCII white space.\<close>

definition is_space :: "char \<Rightarrow> bool" where
  "is_space c = (c \<in> {CHR '' '', CHR 0x09, CHR 0x0A, CHR 0x0B, CHR 0x0C, CHR 0x0D})"

definition rstrip :: "string \<Rightarrow> string" where
  "rstrip s = rev (dropWhile is_space (rev s))"

definition replace_lf :: "string \<Rightarrow> string" where
  "replace_lf s = map (\<lambda>c. if c = CHR 0x0A then CHR '' '' else c) s"

text \<open>
  \<open>_parse_zerovm_report\<close> updates the headers key by key; a \<open>ValueError\<close> of \<open>int()\<close> leaves
  the keys assigned before it changed. The result says whether it raised. The builtin
  \<open>int\<close> is a parameter: \<open>None\<close> is its \<open>ValueError\<close>.
\<close>

fun parse_zerovm_report ::
  "(string \<Rightarrow> int option) \<Rightarrow> nexe_headers \<Rightarrow> string list \<Rightarrow> failure option \<times> nexe_headers" where
  "parse_zerovm_report py_int h [validator, daemon, retcode, etag, cdr, status_text] =
     (case py_int validator of
        None \<Rightarrow> (Some (PyError ''ValueError''), h)
      | Some v \<Rightarrow>
          let h1 = h\<lparr>x_nexe_validation := v\<rparr> in
          (case py_int retcode of
             None \<Rightarrow> (Some (PyError ''ValueError''), h1)
           | Some rc \<Rightarrow>
               let h2 = h1\<lparr>x_nexe_retcode := rc, x_nexe_etag := etag, x_nexe_cdr_line := cdr,
                            x_nexe_status := rstrip (replace_lf status_text)\<rparr> in
               (case py_int daemon of
                  None \<Rightarrow> (Some (PyError ''ValueError''), h2)
                | Some daemon_status \<Rightarrow>
                    (None, if daemon_status > 0 then h2\<lparr>x_zerovm_daemon := Some daemon_status\<rparr>
                           else h2))))"
| "parse_zerovm_report py_int h report = (Some (PyError ''IndexError''), h)"

text \<open>
  \<open>_channel_cleanup\<close>: unlink the file of every response channel; an \<open>OSError\<close> (no such
  file) is swallowed. A channel dictionary without \<open>lpath\<close> raises.
\<close>

fun channel_cleanup ::
  "channel list \<Rightarrow> (string \<rightharpoonup> string) \<Rightarrow> failure option \<times> (string \<rightharpoonup> string)" where
  "channel_cleanup [] fs = (None, fs)"
| "channel_cleanup (ch # rest) fs =
     (case lpath ch of
        None \<Rightarrow> (Some (PyError ''KeyError''), fs)
      | Some p \<Rightarrow> channel_cleanup rest (fs(p := None)))"

text \<open>
  How a stage of the request ends: it returns a response, it raises, or the request goes
  on with the (updated) headers.
\<close>

datatype report_outcome = Returned response | Raised failure | Parsed nexe_headers

definition create_exec_error ::
  "nexe_headers \<Rightarrow> nat \<Rightarrow> string \<Rightarrow> channel list \<Rightarrow> (string \<rightharpoonup> string)
   \<Rightarrow> report_outcome \<times> (string \<rightharpoonup> string)" where
  "create_exec_error nexe_headers zerovm_retcode zerovm_stdout response_chs fs =
     (if zerovm_retcode < length RETCODE_MAP then
        let err = ''ERROR OBJ.QUERY retcode='' @ RETCODE_MAP ! zerovm_retcode
                  @ '',  zerovm_stdout='' @ zerovm_stdout;
            resp = \<lparr>status = 500, body = err,
                    headers = Some (nexe_headers\<lparr>x_nexe_status := ''ZeroVM runtime error''\<rparr>)\<rparr>
        in (case channel_cleanup response_chs fs of
              (Some e, fs') \<Rightarrow> (Raised e, fs')
            | (None, fs') \<Rightarrow> (Returned resp, fs'))
      else (Raised (PyError ''IndexError''), fs))"

text \<open>
  The report stage of \<open>zerovm_query\<close>, from the result of the sandbox thread
  \<open>(zerovm_retcode, zerovm_stdout, zerovm_stderr)\<close> to the decision between an error
  response and going on.
\<close>

definition handle_report ::
  "(string \<Rightarrow> int option) \<Rightarrow> nexe_headers \<Rightarrow> nat \<times> string \<times> string \<Rightarrow> channel list
   \<Rightarrow> (string \<rightharpoonup> string) \<Rightarrow> report_outcome \<times> (string \<rightharpoonup> string)" where
  "handle_report py_int nexe_headers result response_chs fs =
     (case result of (zerovm_retcode, out, zerovm_stderr) \<Rightarrow>
        let zerovm_stdout = (if zerovm_stderr \<noteq> [] then out @ zerovm_stderr else out);
            report = split_lf (REPORT_LENGTH - 1) zerovm_stdout;
            parsed = (if length report = REPORT_LENGTH
                      then parse_zerovm_report py_int nexe_headers report
                      else (None, nexe_headers))
        in (case parsed of
              (Some e, h) \<Rightarrow>
                create_exec_error h zerovm_retcode zerovm_stdout response_chs fs
            | (None, h) \<Rightarrow>
                if zerovm_retcode > 1 \<or> length report < REPORT_LENGTH
                then create_exec_error h zerovm_retcode zerovm_stdout response_chs fs
                else (Parsed h, fs)))"

text \<open>
  An instance of the parameter \<open>int\<close> for the examples: the value of an unsigned decimal
  literal, and \<open>ValueError\<close> for every other string.
\<close>

definition digits_to_int :: "string \<Rightarrow> int option" where
  "digits_to_int s =
     (if s \<noteq> [] \<and> list_all (\<lambda>c. CHR ''0'' \<le> c \<and> c \<le> CHR ''9'') s
      then Some (foldl (\<lambda>a c. 10 * a + (of_char c - 48)) 0 s)
      else None)"

section \<open>Running the sandbox: \<open>execute_zerovm\<close>\<close>

text \<open>The hardcoded limits of \<open>ObjectQueryMiddleware.__init__\<close>.\<close>

definition zerovm_stdout_size :: nat where "zerovm_stdout_size = 65536"

definition zerovm_stderr_size :: nat where "zerovm_stderr_size = 65536"

text \<open>
  The child process as the parent sees it: for each pipe the chunks that successive
  \<open>os.read\<close> calls will find, the end of the list being the end of file, and the exit code.
  What the scheduler decides is a list of rounds of the reading loop: in a round either
  \<open>select\<close> returns, with each of the two pipes ready or not, or the deadline's \<open>Timeout\<close>
  (or another exception) is raised. A list of rounds that ends while the loop is still
  reading ends with the deadline.
\<close>

datatype stream = Stdout | Stderr

datatype round = Ready bool bool | Expire

datatype signal = SIGTERM | SIGKILL

record child =
  c_stdout :: "string list"
  c_stderr :: "string list"
  returncode :: int

record rstate =
  readable :: "stream list"
  stdout_data :: string
  stderr_data :: string
  out_pipe :: "string list"
  err_pipe :: "string list"

text \<open>\<open>os.read(fd, 4096)\<close>: at most 4096 bytes of the next chunk, the empty string at the end.\<close>

definition os_read :: "string list \<Rightarrow> string \<times> string list" where
  "os_read pipe =
     (case pipe of
        [] \<Rightarrow> ([], [])
      | c # cs \<Rightarrow> (take 4096 c, if length c > 4096 then drop 4096 c # cs else cs))"

text \<open>The body of the \<open>for stream in rlist\<close> loop of \<open>read_from_std\<close>.\<close>

fun read_stream :: "stream \<Rightarrow> rstate \<Rightarrow> rstate" where
  "read_stream Stdout st =
     (case os_read (out_pipe st) of (data, rest) \<Rightarrow>
        if data = [] then st\<lparr>readable := remove1 Stdout (readable st), out_pipe := rest\<rparr>
        else st\<lparr>stdout_data := stdout_data st @ data, out_pipe := rest\<rparr>)"
| "read_stream Stderr st =
     (case os_read (err_pipe st) of (data, rest) \<Rightarrow>
        if data = [] then st\<lparr>readable := remove1 Stderr (readable st), err_pipe := rest\<rparr>
        else st\<lparr>stderr_data := stderr_data st @ data, err_pipe := rest\<rparr>)"

text \<open>
  \<open>read_from_std\<close>: \<open>select\<close> returns the ready ones among \<open>readable\<close>, and each is read
  once. An empty \<open>rlist\<close> (the \<open>select\<close> timed out) changes nothing.
\<close>

definition is_ready :: "bool \<Rightarrow> bool \<Rightarrow> stream \<Rightarrow> bool" where
  "is_ready out_ready err_ready s = (case s of Stdout \<Rightarrow> out_ready | Stderr \<Rightarrow> err_ready)"

definition read_from_std :: "bool \<Rightarrow> bool \<Rightarrow> rstate \<Rightarrow> rstate" where
  "read_from_std out_ready err_ready st =
     fold read_stream (filter (is_ready out_ready err_ready) (readable st)) st"

definition too_long :: "rstate \<Rightarrow> bool" where
  "too_long st = (length (stdout_data st) > zerovm_stdout_size
                  \<or> length (stderr_data st) > zerovm_stderr_size)"

text \<open>
  The loop \<open>while len(readable) > 0\<close>, which both the main part and the part after
  \<open>proc.terminate()\<close> run: it ends because nothing is left to read, because an output is
  too long, or because the deadline's exception is raised.
\<close>

datatype loop_end = Finished | TooLong | Expired

fun read_loop :: "round list \<Rightarrow> rstate \<Rightarrow> loop_end \<times> rstate" where
  "read_loop [] st = (if readable st = [] then Finished else Expired, st)"
| "read_loop (r # rest) st =
     (if readable st = [] then (Finished, st)
      else (case r of
              Expire \<Rightarrow> (Expired, st)
            | Ready out_ready err_ready \<Rightarrow>
                let st' = read_from_std out_ready err_ready st in
                if too_long st' then (TooLong, st') else read_loop rest st'))"

text \<open>
  \<open>get_final_status\<close>: \<open>proc.communicate()\<close> reads what is left in the pipes; without a
  given code the code is 0 or 1 by the child's exit code.
\<close>

definition get_final_status :: "child \<Rightarrow> rstate \<Rightarrow> nat option \<Rightarrow> nat \<times> string \<times> string" where
  "get_final_status proc st return_code =
     (case return_code of
        None \<Rightarrow> if returncode proc \<noteq> 0 then 1 else 0
      | Some c \<Rightarrow> c,
      stdout_data st @ concat (out_pipe st),
      stderr_data st @ concat (err_pipe st))"

definition start_state :: "child \<Rightarrow> rstate" where
  "start_state proc =
     \<lparr>readable = [Stdout, Stderr], stdout_data = [], stderr_data = [],
      out_pipe = c_stdout proc, err_pipe = c_stderr proc\<rparr>"

text \<open>
  \<open>execute_zerovm\<close>: the result \<open>(code, stdout, stderr)\<close> and the signals sent to the
  child, in order. \<open>rounds\<close> are the rounds before the deadline \<open>timeout + TIMEOUT_GRACE\<close>,
  \<open>kill_rounds\<close> those after \<open>proc.terminate()\<close>, before \<open>zerovm_kill_timeout\<close>.
\<close>

definition execute_zerovm ::
  "child \<Rightarrow> round list \<Rightarrow> round list \<Rightarrow> (nat \<times> string \<times> string) \<times> signal list" where
  "execute_zerovm proc rounds kill_rounds =
     (case read_loop rounds (start_state proc) of
        (TooLong, st) \<Rightarrow> ((4, stdout_data st, stderr_data st), [SIGKILL])
      | (Finished, st) \<Rightarrow> (get_final_status proc st None, [])
      | (Expired, st) \<Rightarrow>
          (case read_loop kill_rounds st of
             (TooLong, st') \<Rightarrow> ((4, stdout_data st', stderr_data st'), [SIGTERM, SIGKILL])
           | (Finished, st') \<Rightarrow> (get_final_status proc st' (Some 2), [SIGTERM])
           | (Expired, st') \<Rightarrow> (get_final_status proc st' (Some 3), [SIGTERM, SIGKILL])))"

text \<open>
  The bytes accumulated by a sequence of reading rounds, with no check in between: what
  the claim calls the accumulated stdout and stderr.
\<close>

definition ready_round :: "bool \<times> bool \<Rightarrow> round" where
  "ready_round r = Ready (fst r) (snd r)"

definition feed :: "(bool \<times> bool) list \<Rightarrow> rstate \<Rightarrow> rstate" where
  "feed rs st = fold (\<lambda>r. read_from_std (fst r) (snd r)) rs st"

text \<open>
  What the reading keeps true when \<open>os.read\<close> returns the empty string at the end of file
  only: a pipe that was taken off \<open>readable\<close> is at its end, and the bytes read so far
  followed by the bytes to come are the child's whole output.
\<close>

definition pipes_ok :: "child \<Rightarrow> rstate \<Rightarrow> bool" where
  "pipes_ok proc st \<longleftrightarrow>
     distinct (readable st)
     \<and> [] \<notin> set (out_pipe st) \<and> [] \<notin> set (err_pipe st)
     \<and> (Stdout \<in> set (readable st) \<or> out_pipe st = [])
     \<and> (Stderr \<in> set (readable st) \<or> err_pipe st = [])
     \<and> stdout_data st @ concat (out_pipe st) = concat (c_stdout proc)
     \<and> stderr_data st @ concat (err_pipe st) = concat (c_stderr proc)"

text \<open>
  Example children: one that writes 70000 bytes to stdout, one that writes 69632 bytes
  and ends only when it is killed, one that writes two bytes.
\<close>

definition chatty_child :: child where
  "chatty_child = \<lparr>c_stdout = [replicate 70000 CHR ''x''], c_stderr = [], returncode = 0\<rparr>"

definition stubborn_child :: child where
  "stubborn_child = \<lparr>c_stdout = [replicate 69632 CHR ''x''], c_stderr = [], returncode = -9\<rparr>"

definition quiet_child :: child where
  "quiet_child = \<lparr>c_stdout = [''ok''], c_stderr = [], returncode = 0\<rparr>"

definition stdout_reads :: "(bool \<times> bool) list" where
  "stdout_reads = replicate 17 (True, False)"

section \<open>The daemon socket exchange: \<open>send_to_socket\<close>\<close>

text \<open>\<open>'0x%06x' % n\<close>: lower-case hexadecimal digits, padded with zeros to at least six.\<close>

definition hex_char :: "nat \<Rightarrow> char" where
  "hex_char d = ''0123456789abcdef'' ! d"

fun hex_digits :: "nat \<Rightarrow> string" where
  "hex_digits n = (if n < 16 then [hex_char n] else hex_digits (n div 16) @ [hex_char (n mod 16)])"

declare hex_digits.simps [simp del]

definition format_0x06x :: "nat \<Rightarrow> string" where
  "format_0x06x n = ''0x'' @ replicate (6 - length (hex_digits n)) CHR ''0'' @ hex_digits n"

text \<open>
  The socket as the function sees it: what \<open>sendall\<close> will do, and what the successive
  \<open>recv\<close> calls will find, each a piece of data or a raised \<open>Timeout\<close> or \<open>IOError\<close>. The
  end of the list is the closed connection, where \<open>recv\<close> returns the empty string.
  \<open>sent\<close> collects the bytes written.
\<close>

datatype send_result = Sent | SendTimeout | SendIOError

datatype recv_result = Data string | RaiseTimeout | RaiseIOError

record sock =
  sendall_result :: send_result
  incoming :: "recv_result list"
  sent :: string
  closed :: bool

datatype recv_end = Got string | TimeoutExc | IOErrorExc | ValueErrorExc

text \<open>
  \<open>sock.recv(n)\<close>: at most \<open>n\<close> bytes of the next piece; the rest of the piece stays for
  the next call. A negative \<open>n\<close> is a \<open>ValueError\<close>.
\<close>

definition recv :: "sock \<Rightarrow> int \<Rightarrow> recv_end \<times> sock" where
  "recv s n =
     (if n < 0 then (ValueErrorExc, s)
      else (case incoming s of
              [] \<Rightarrow> (Got [], s)
            | RaiseTimeout # rest \<Rightarrow> (TimeoutExc, s\<lparr>incoming := rest\<rparr>)
            | RaiseIOError # rest \<Rightarrow> (IOErrorExc, s\<lparr>incoming := rest\<rparr>)
            | Data d # rest \<Rightarrow>
                (Got (take (nat n) d),
                 s\<lparr>incoming := (if drop (nat n) d = [] then rest else Data (drop (nat n) d) # rest)\<rparr>)))"

definition exc_result :: "recv_end \<Rightarrow> nat \<times> string \<times> string" where
  "exc_result e =
     (case e of
        TimeoutExc \<Rightarrow> (2, ''Timed out'', [])
      | IOErrorExc \<Rightarrow> (1, ''Socket error'', [])
      | _ \<Rightarrow> (1, ''Report error'', []))"

text \<open>
  \<open>send_to_socket\<close>. The builtin \<open>int(_, 0)\<close> is the parameter \<open>py_int0\<close>, \<open>None\<close> being its
  \<open>ValueError\<close>. The socket is closed on every path (\<open>finally\<close>).
\<close>

definition send_to_socket ::
  "(string \<Rightarrow> int option) \<Rightarrow> sock \<Rightarrow> string \<Rightarrow> (nat \<times> string \<times> string) \<times> sock" where
  "send_to_socket py_int0 s zerovm_inputmnfst =
     (let size_prefix = format_0x06x (length zerovm_inputmnfst) in
      case sendall_result s of
        SendTimeout \<Rightarrow> ((2, ''Timed out'', []), s\<lparr>closed := True\<rparr>)
      | SendIOError \<Rightarrow> ((1, ''Socket error'', []), s\<lparr>closed := True\<rparr>)
      | Sent \<Rightarrow>
          let s1 = s\<lparr>sent := sent s @ size_prefix @ zerovm_inputmnfst\<rparr> in
          (case recv s1 8 of
             (Got head, s2) \<Rightarrow>
               (case py_int0 head of
                  None \<Rightarrow> ((1, ''Report error'', []), s2\<lparr>closed := True\<rparr>)
                | Some report_size \<Rightarrow>
                    if report_size = 0 then ((1, ''Report error'', []), s2\<lparr>closed := True\<rparr>)
                    else if report_size > int zerovm_stdout_size
                    then ((4, ''Output too long'', []), s2\<lparr>closed := True\<rparr>)
                    else (case recv s2 report_size of
                            (Got report, s3) \<Rightarrow> ((0, report, []), s3\<lparr>closed := True\<rparr>)
                          | (e, s3) \<Rightarrow> (exc_result e, s3\<lparr>closed := True\<rparr>)))
           | (e, s2) \<Rightarrow> (exc_result e, s2\<lparr>closed := True\<rparr>)))"

text \<open>
  An instance of \<open>int(_, 0)\<close> for the examples: the value of \<open>0x\<close> followed by lower-case
  hexadecimal digits, and \<open>ValueError\<close> for every other string.
\<close>

definition hex_val :: "char \<Rightarrow> nat option" where
  "hex_val c =
     (if CHR ''0'' \<le> c \<and> c \<le> CHR ''9'' then Some (of_char c - 48)
      else if CHR ''a'' \<le> c \<and> c \<le> CHR ''f'' then Some (of_char c - 87)
      else None)"

definition hex_to_int :: "string \<Rightarrow> int option" where
  "hex_to_int s =
     (case s of
        a # b # ds \<Rightarrow>
          if a = CHR ''0'' \<and> b = CHR ''x'' \<and> ds \<noteq> [] \<and> list_all (\<lambda>c. hex_val c \<noteq> None) ds
          then Some (int (foldl (\<lambda>acc c. 16 * acc + the (hex_val c)) 0 ds))
          else None
      | _ \<Rightarrow> None)"

section \<open>Ingesting an execution request\<close>

definition TAR_MIMES :: "string list" where
  "TAR_MIMES = [''application/x-tar'', ''application/x-gtar'', ''application/x-ustar'',
                ''application/x-gzip'']"

text \<open>
  The request headers that \<open>zerovm_query\<close> reads before it parses the system map, each
  absent or with its value, and the outcome of \<open>get_name_and_placement\<close> for the request
  path (a function of the object store's library): five names, or the error it raises.
\<close>

record placement =
  pl_device :: string
  pl_partition :: string
  pl_account :: string
  pl_container :: string
  pl_obj :: string

record request =
  x_zerocloud_id :: "string option"
  content_length :: "string option"
  content_type :: "string option"
  x_zerovm_access :: "string option"
  x_nexe_colocated :: "string option"
  x_timestamp :: "string option"
  x_zerovm_pool :: "string option"
  name_and_placement :: "failure + placement"
  policy_name :: string

text \<open>
  What the request meets on the node: the limits of the configuration, the thread pools
  by name (of a pool only the answer of \<open>can_spawn\<close> for a job id), and the object store:
  whether a device is mounted, whether the object's disk file exists, whether the
  container is deleted.
\<close>

record node =
  n_rbytes :: int
  max_upload_time :: real
  zerovm_thread_pools :: "string \<rightharpoonup> (string \<Rightarrow> bool)"
  dev_path :: "string \<Rightarrow> bool"
  disk_file_exists :: bool
  container_is_deleted :: bool
  int_of :: "string \<Rightarrow> int option"
  py_float_ok :: "string \<Rightarrow> bool"

text \<open>
  The request body as the reading loop meets it: for every chunk that the loop's own
  \<open>for\<close> takes, the position of the body file and the clock at the two checks, and what
  unpacking the tar entries of the chunk raises, if anything; and the position when the
  body is exhausted. \<open>upload_start\<close> is the clock when the loop is set up.
\<close>

record chunk =
  position :: int
  now :: real
  untar :: "failure option"

record body_stream =
  chunks :: "chunk list"
  final_position :: int
  upload_start :: real

text \<open>
  An error response with the body the call passes; when a call passes none, the field is
  empty here (the library's default text is not modelled).
\<close>

definition http :: "nat \<Rightarrow> string \<Rightarrow> nexe_headers option \<Rightarrow> failure" where
  "http code text hs = HTTPError \<lparr>status = code, body = text, headers = hs\<rparr>"

definition lower :: "string \<Rightarrow> string" where
  "lower s = map (\<lambda>c. if CHR ''A'' \<le> c \<and> c \<le> CHR ''Z'' then char_of (of_char c + (32::nat)) else c) s"

text \<open>The checks on the headers, up to the content type.\<close>

definition check_headers :: "node \<Rightarrow> request \<Rightarrow> failure + (string \<times> placement \<times> nexe_headers)" where
  "check_headers nd req =
     (if \<not> truthy (x_zerocloud_id req)
      then Inl (http 500 ''X-Zerocloud-Id header is missing'' None)
      else
        (case name_and_placement req of
           Inl e \<Rightarrow> Inl e
         | Inr pl \<Rightarrow>
             let nexe_headers = initial_nexe_headers (policy_name req) in
             (case (case content_length req of
                      None \<Rightarrow> Inr False
                    | Some l \<Rightarrow> (case int_of nd l of
                                   None \<Rightarrow> Inl (PyError ''ValueError'')
                                 | Some n \<Rightarrow> Inr (n > n_rbytes nd))) of
                Inl e \<Rightarrow> Inl e
              | Inr True \<Rightarrow> Inl (http 413 ''RPC request too large'' (Some nexe_headers))
              | Inr False \<Rightarrow>
                  (case content_type req of
                     None \<Rightarrow> Inl (http 400 ''No content type'' (Some nexe_headers))
                   | Some ct \<Rightarrow>
                       if ct \<notin> set TAR_MIMES
                       then Inl (http 400 ''Invalid Content-Type'' (Some nexe_headers))
                       else Inr (the (x_zerocloud_id req), pl, nexe_headers)))))"

text \<open>
  Binding the local object: the disk file for a request on an object, the container
  broker for a request on a container.
\<close>

definition bind_local_object :: "node \<Rightarrow> request \<Rightarrow> placement \<Rightarrow> nexe_headers \<Rightarrow> failure option" where
  "bind_local_object nd req pl nexe_headers =
     (let access_hdr = (case x_zerovm_access req of None \<Rightarrow> [] | Some a \<Rightarrow> a);
          colocated = x_nexe_colocated req in
      if pl_obj pl \<noteq> [] then
        (if \<not> dev_path nd (pl_device pl) then
           (if truthy colocated then Some (http 404 [] None)
            else Some (http 507 [] None))
         else if access_hdr = ''GET'' then
           (if \<not> disk_file_exists nd then Some (http 404 [] None) else None)
         else if access_hdr = ''PUT'' then
           (case x_timestamp req of
              None \<Rightarrow> Some (http 400 (''Locally writable object specified but no x-timestamp ''
                                       @ ''in request'') None)
            | Some t \<Rightarrow>
                if py_float_ok nd t then None
                else Some (http 400 (''Locally writable object specified but no x-timestamp ''
                                     @ ''in request'') None))
         else None)
      else if pl_container pl \<noteq> [] then
        (if access_hdr = ''GET'' then
           (if container_is_deleted nd then Some (http 404 [] (Some nexe_headers)) else None)
         else Some (http 405 ([CHR 0x27] @ access_hdr @ [CHR 0x27]
                              @ '' requests on containers are not supported.'')
                      (Some nexe_headers)))
      else None)"

definition check_pool :: "node \<Rightarrow> request \<Rightarrow> string \<Rightarrow> nexe_headers \<Rightarrow> failure option" where
  "check_pool nd req job_id nexe_headers =
     (let pool = lower (case x_zerovm_pool req of None \<Rightarrow> ''default'' | Some p \<Rightarrow> p) in
      case zerovm_thread_pools nd pool of
        None \<Rightarrow> Some (http 400 (''Cannot find pool '' @ pool) (Some nexe_headers))
      | Some can_spawn \<Rightarrow>
          if \<not> can_spawn job_id
          then Some (http 503 ''Slot not available'' (Some nexe_headers))
          else None)"

text \<open>The loop over the chunks of the body, and the comparison with \<open>Content-Length\<close> after it.\<close>

fun read_chunks :: "node \<Rightarrow> nexe_headers \<Rightarrow> real \<Rightarrow> chunk list \<Rightarrow> failure option" where
  "read_chunks nd nexe_headers upload_expiration [] = None"
| "read_chunks nd nexe_headers upload_expiration (c # rest) =
     (if position c > n_rbytes nd
      then Some (http 413 ''RPC request too large'' (Some nexe_headers))
      else if now c > upload_expiration
      then Some (http 408 [] (Some nexe_headers))
      else (case untar c of
              Some e \<Rightarrow> Some e
            | None \<Rightarrow> read_chunks nd nexe_headers upload_expiration rest))"

definition read_body :: "node \<Rightarrow> request \<Rightarrow> nexe_headers \<Rightarrow> body_stream \<Rightarrow> failure option" where
  "read_body nd req nexe_headers b =
     (case read_chunks nd nexe_headers (upload_start b + max_upload_time nd) (chunks b) of
        Some e \<Rightarrow> Some e
      | None \<Rightarrow>
          (case content_length req of
             None \<Rightarrow> None
           | Some l \<Rightarrow>
               (case int_of nd l of
                  None \<Rightarrow> Some (PyError ''ValueError'')
                | Some n \<Rightarrow>
                    if final_position b < n then Some (http 499 [] (Some nexe_headers))
                    else if final_position b > n
                    then Some (http 400 (''Actual content length is greater than the ''
                                         @ [CHR 0x27] @ ''Content-Length'' @ [CHR 0x27] @ '' header'')
                                 None)
                    else None)))"

text \<open>
  The part of \<open>zerovm_query\<close> before the system map is parsed: \<open>None\<close> when the request
  goes on.
\<close>

definition ingest :: "node \<Rightarrow> request \<Rightarrow> body_stream \<Rightarrow> failure option" where
  "ingest nd req b =
     (case check_headers nd req of
        Inl e \<Rightarrow> Some e
      | Inr (job_id, pl, nexe_headers) \<Rightarrow>
          (case bind_local_object nd req pl nexe_headers of
             Some e \<Rightarrow> Some e
           | None \<Rightarrow>
               (case check_pool nd req job_id nexe_headers of
                  Some e \<Rightarrow> Some e
                | None \<Rightarrow> read_body nd req nexe_headers b)))"

definition status_of :: "failure option \<Rightarrow> nat option" where
  "status_of r = (case r of Some (HTTPError resp) \<Rightarrow> Some (status resp) | _ \<Rightarrow> None)"

text \<open>A chunk that passes the two checks of the loop and unpacks without an error.\<close>

definition chunk_ok :: "node \<Rightarrow> body_stream \<Rightarrow> chunk \<Rightarrow> bool" where
  "chunk_ok nd b c \<longleftrightarrow>
     position c \<le> n_rbytes nd \<and> now c \<le> upload_start b + max_upload_time nd \<and> untar c = None"

text \<open>The request passes every check that comes before the body is read.\<close>

definition reaches_body :: "node \<Rightarrow> request \<Rightarrow> nexe_headers \<Rightarrow> bool" where
  "reaches_body nd req h \<longleftrightarrow>
     (\<exists>job_id pl. check_headers nd req = Inr (job_id, pl, h)
        \<and> bind_local_object nd req pl h = None
        \<and> check_pool nd req job_id h = None)"

text \<open>Example data: a node with one device, and a well-formed request for an object.\<close>

definition ex_node :: node where
  "ex_node = \<lparr>n_rbytes = 1024, max_upload_time = 60,
     zerovm_thread_pools = [''default'' \<mapsto> (\<lambda>job_id. True)],
     dev_path = (\<lambda>d. d = ''sda1''), disk_file_exists = True, container_is_deleted = False,
     int_of = digits_to_int, py_float_ok = (\<lambda>s. True)\<rparr>"

definition ex_request :: request where
  "ex_request = \<lparr>x_zerocloud_id = Some ''job-1'', content_length = Some ''512'',
     content_type = Some ''application/x-tar'', x_zerovm_access = Some ''GET'',
     x_nexe_colocated = None, x_timestamp = None, x_zerovm_pool = None,
     name_and_placement = Inr \<lparr>pl_device = ''sda1'', pl_partition = ''0'', pl_account = ''a'',
       pl_container = ''c'', pl_obj = ''o''\<rparr>,
     policy_name = ''Policy-0''\<rparr>"

definition ex_body :: "int \<Rightarrow> real \<Rightarrow> int \<Rightarrow> body_stream" where
  "ex_body pos t final =
     \<lparr>chunks = [\<lparr>position = pos, now = t, untar = None\<rparr>], final_position = final,
      upload_start = 0\<rparr>"

section \<open>The validator: \<open>validate\<close> and \<open>is_validated\<close>\<close>

text \<open>
  The object store as the validator meets it: which devices are mounted, and the metadata
  of the objects that exist, by the names of the request path. \<open>get_disk_file\<close> raises
  \<open>DiskFileDeviceUnavailable\<close> for a device that is not mounted, \<open>disk_file.open()\<close> raises
  \<open>DiskFileNotExist\<close> for an object that does not exist, and \<open>put_metadata\<close> replaces the
  metadata of the object.
\<close>

record object_store =
  mounted :: "string \<Rightarrow> bool"
  objects :: "placement \<rightharpoonup> (string \<rightharpoonup> string)"

text \<open>
  Both functions return \<open>True\<close> or \<open>False\<close>, or the 507 response object that they build
  for an unavailable device, or they raise.
\<close>

datatype vresult = VBool bool | VResponse response | VRaise failure

definition is_validated :: "object_store \<Rightarrow> request \<Rightarrow> vresult" where
  "is_validated store req =
     (case name_and_placement req of
        Inl e \<Rightarrow> if e = PyError ''ValueError'' then VBool False else VRaise e
      | Inr pl \<Rightarrow>
          if \<not> mounted store (pl_device pl) then VResponse \<lparr>status = 507, body = [], headers = None\<rparr>
          else
            (case objects store pl of
               None \<Rightarrow> VRaise (PyError ''DiskFileNotExist'')
             | Some md \<Rightarrow>
                 let validated = md ''Validated''; etag = md ''ETag'' in
                 if truthy validated \<and> truthy etag \<and> etag = validated then VBool True
                 else VBool False))"

text \<open>
  \<open>validate\<close>. The builtin \<open>int\<close> and the limit \<open>zerovm_maxnexe\<close> are parameters, and so is
  the result \<open>(zerovm_retcode, zerovm_stdout, zerovm_stderr)\<close> of the sandbox thread, which
  runs the stored executable with the flag \<open>-F\<close> on a manifest of three null channels.
\<close>

definition validate ::
  "(string \<Rightarrow> int option) \<Rightarrow> int \<Rightarrow> object_store \<Rightarrow> request \<Rightarrow> nat \<times> string \<times> string
   \<Rightarrow> vresult \<times> object_store" where
  "validate py_int zerovm_maxnexe store req result =
     (case name_and_placement req of
        Inl e \<Rightarrow> (if e = PyError ''ValueError'' then VBool False else VRaise e, store)
      | Inr pl \<Rightarrow>
          if \<not> mounted store (pl_device pl)
          then (VResponse \<lparr>status = 507, body = [], headers = None\<rparr>, store)
          else
            (case objects store pl of
               None \<Rightarrow> (VRaise (PyError ''DiskFileNotExist''), store)
             | Some md \<Rightarrow>
                 (case md ''Content-Length'' of
                    None \<Rightarrow> (VRaise (PyError ''KeyError''), store)
                  | Some l \<Rightarrow>
                      (case py_int l of
                         None \<Rightarrow> (VRaise (PyError ''ValueError''), store)
                       | Some n \<Rightarrow>
                           if n > zerovm_maxnexe then (VBool False, store)
                           else
                             (case result of (zerovm_retcode, zerovm_stdout, zerovm_stderr) \<Rightarrow>
                                if zerovm_retcode = 0 then
                                  (case py_int (hd (split_lf 1 zerovm_stdout)) of
                                     None \<Rightarrow> (VBool False, store)
                                   | Some validated \<Rightarrow>
                                       if validated = 0 then
                                         (case md ''ETag'' of
                                            None \<Rightarrow> (VRaise (PyError ''KeyError''), store)
                                          | Some etag \<Rightarrow>
                                              (VBool True,
                                               store\<lparr>objects := (objects store)
                                                  (pl \<mapsto> md(''Validated'' \<mapsto> etag))\<rparr>))
                                       else (VBool False, store))
                                else (VBool False, store))))))"

text \<open>Example data: a mounted device with one stored executable.\<close>

definition ex_placement :: placement where
  "ex_placement = \<lparr>pl_device = ''sda1'', pl_partition = ''0'', pl_account = ''a'',
     pl_container = ''c'', pl_obj = ''o''\<rparr>"

definition ex_store :: object_store where
  "ex_store = \<lparr>mounted = (\<lambda>d. d = ''sda1''),
     objects = [ex_placement \<mapsto> [''Content-Length'' \<mapsto> ''512'',
                                  ''ETag'' \<mapsto> ''d41d8cd98f00b204e9800998ecf8427e'']]\<rparr>"

section \<open>The WSGI entry point: \<open>__call__\<close>\<close>

text \<open>
  What \<open>__call__\<close> reads of the request beyond the headers above: whether the path is
  valid UTF-8, the HTTP verb, and three more headers.
\<close>

record wsgi_request = request +
  path_is_utf8 :: bool
  req_method :: string
  x_zerovm_execute :: "string option"
  x_zerovm_validate :: "string option"
  x_zerovm_valid :: "string option"

text \<open>
  What the calls made inside the \<open>try\<close> do: \<open>zerovm_query\<close> returns a response or raises;
  the wrapped application returns its own response (opaque here) or raises.
\<close>

datatype query_outcome = QReturn response | QRaise failure

datatype app_outcome = AppReturn string | AppRaise failure

text \<open>
  The response \<open>res\<close> that \<open>__call__\<close> goes on with, or the wrapped application's response
  that it returns at once (in the two validator branches the application is called with
  a wrapped \<open>start_response\<close>, which adds a header to the application's response and does
  not change what is returned). An \<open>HTTPException\<close> is the response it carries; any other
  exception becomes a 500 response whose body is the traceback.
\<close>

definition caught :: "failure \<Rightarrow> response" where
  "caught e =
     (case e of
        HTTPError resp \<Rightarrow> resp
      | PyError traceback \<Rightarrow> \<lparr>status = 500, body = traceback, headers = None\<rparr>)"

definition pass_through :: "app_outcome \<Rightarrow> response + string" where
  "pass_through app = (case app of AppReturn a \<Rightarrow> Inr a | AppRaise e \<Rightarrow> Inl (caught e))"

definition dispatch :: "wsgi_request \<Rightarrow> query_outcome \<Rightarrow> app_outcome \<Rightarrow> response + string" where
  "dispatch req query app =
     (if \<not> path_is_utf8 req then Inl \<lparr>status = 412, body = ''Invalid UTF8'', headers = None\<rparr>
      else if x_zerovm_execute req \<noteq> None \<and> req_method req = ''POST'' then
        (case query of QReturn res \<Rightarrow> Inl res | QRaise e \<Rightarrow> Inl (caught e))
      else if (req_method req = ''PUT'' \<or> req_method req = ''POST'')
              \<and> (x_zerovm_validate req \<noteq> None \<or> content_type req = Some ''application/x-nexe'')
      then pass_through app
      else if x_zerovm_valid req \<noteq> None \<and> req_method req = ''GET''
      then pass_through app
      else pass_through app)"

text \<open>
  The rewriting of \<open>x-nexe-cdr-line\<close>. The formatting \<open>'%.3f' %\<close> of a float is the
  parameter \<open>fmt3\<close>.
\<close>

definition stamp_cdr_line :: "(real \<Rightarrow> string) \<Rightarrow> real \<Rightarrow> response \<Rightarrow> response" where
  "stamp_cdr_line fmt3 trans_time res =
     (case headers res of
        None \<Rightarrow> res
      | Some h \<Rightarrow>
          res\<lparr>headers := Some (h\<lparr>x_nexe_cdr_line := fmt3 trans_time @ '', '' @ x_nexe_cdr_line h\<rparr>)\<rparr>)"

text \<open>
  \<open>__call__\<close>: \<open>Own\<close> is a response of the middleware's making, \<open>Passed\<close> the wrapped
  application's response handed through. \<open>start_time\<close> and \<open>end_time\<close> are the two readings
  of the clock.
\<close>

datatype call_result = Own response | Passed string

definition wsgi_call ::
  "(real \<Rightarrow> string) \<Rightarrow> real \<Rightarrow> real \<Rightarrow> wsgi_request \<Rightarrow> query_outcome \<Rightarrow> app_outcome
   \<Rightarrow> call_result" where
  "wsgi_call fmt3 start_time end_time req query app =
     (case dispatch req query app of
        Inr a \<Rightarrow> Passed a
      | Inl res \<Rightarrow> Own (stamp_cdr_line fmt3 (end_time - start_time) res))"

text \<open>
  An instance of the formatting for the examples: it is right on the multiples of one
  thousandth between 0 and 10, which is all the examples use.
\<close>

definition millis3 :: "real \<Rightarrow> string" where
  "millis3 t =
     (let n = nat \<lfloor>t * 1000\<rfloor> in
      [hex_char (n div 1000), CHR ''.'', hex_char (n div 100 mod 10),
       hex_char (n div 10 mod 10), hex_char (n mod 10)])"

definition ex_wsgi_request :: wsgi_request where
  "ex_wsgi_request = request.extend ex_request
     (wsgi_request.fields True ''POST'' (Some ''true'') None None)"

section \<open>Daemon reuse: the predicate characterised\<close>

lemma is_prefix_iff: "is_prefix xs ys \<longleftrightarrow> (\<exists>suf. ys = xs @ suf)"
proof (induction xs arbitrary: ys)
  case Nil
  show ?case by simp
next
  case (Cons x xs)
  show ?case by (cases ys) (auto simp: Cons.IH)
qed

lemma str_contains_iff: "str_contains n h \<longleftrightarrow> (\<exists>pre suf. h = pre @ n @ suf)"
proof (induction h)
  case Nil
  show ?case by auto
next
  case (Cons c cs)
  show ?case
  proof
    assume "str_contains n (c # cs)"
    then consider "is_prefix n (c # cs)" | "str_contains n cs" by auto
    then show "\<exists>pre suf. c # cs = pre @ n @ suf"
    proof cases
      case 1
      then obtain suf where "c # cs = n @ suf" by (auto simp: is_prefix_iff)
      then have "c # cs = [] @ n @ suf" by simp
      then show ?thesis by blast
    next
      case 2
      then obtain pre suf where "cs = pre @ n @ suf" using Cons.IH by blast
      then have "c # cs = (c # pre) @ n @ suf" by simp
      then show ?thesis by blast
    qed
  next
    assume "\<exists>pre suf. c # cs = pre @ n @ suf"
    then obtain pre suf where eq: "c # cs = pre @ n @ suf" by blast
    show "str_contains n (c # cs)"
    proof (cases pre)
      case Nil
      with eq have "is_prefix n (c # cs)" unfolding is_prefix_iff by auto
      then show ?thesis by simp
    next
      case (Cons p ps)
      with eq have "cs = ps @ n @ suf" by simp
      then have "str_contains n cs" using Cons.IH by blast
      then show ?thesis by simp
    qed
  qed
qed

lemma zip_devices_ok_iff:
  "length ns = length ds \<Longrightarrow>
   zip_devices_ok ns ds \<longleftrightarrow> list_all2 (\<lambda>n d. str_contains (device n) (device d)) ns ds"
  by (induction ns ds rule: list_induct2) auto

text \<open>
  C2 (as the code has it). \<open>can_run_as_daemon\<close> returns true if and only if the
  executables are equal, the node has at least one channel, both have the same number of
  channels, the node has neither \<open>connect\<close> nor \<open>bind\<close> peers, and the node channels,
  sorted by device, match the daemon channels position by position: the device of the
  i-th sorted node channel is a substring of the device of the i-th daemon channel.
\<close>

theorem can_run_as_daemon_iff:
  "can_run_as_daemon node_conf daemon_conf \<longleftrightarrow>
     exe node_conf = exe daemon_conf
     \<and> channels node_conf \<noteq> []
     \<and> \<not> uses_network node_conf
     \<and> list_all2 (\<lambda>n d. \<exists>pre suf. device d = pre @ device n @ suf)
          (sort_key device (channels node_conf)) (channels daemon_conf)"
proof (cases "length (channels node_conf) = length (channels daemon_conf)")
  case True
  then have "length (sort_key device (channels node_conf)) = length (channels daemon_conf)"
    by simp
  from zip_devices_ok_iff [OF this] show ?thesis
    using True by (auto simp: can_run_as_daemon_def uses_network_def str_contains_iff)
next
  case False
  then have "\<not> list_all2 (\<lambda>n d. \<exists>pre suf. device d = pre @ device n @ suf)
          (sort_key device (channels node_conf)) (channels daemon_conf)"
    by (auto dest: list_all2_lengthD)
  with False show ?thesis by (simp add: can_run_as_daemon_def)
qed

theorem can_run_as_daemon_iff_witness:
  "exe \<lparr>exe = ''boot'', channels = [\<lparr>device = ''stdout''\<rparr>, \<lparr>device = ''stdin''\<rparr>],
          connect = [], bind = []\<rparr>
     = exe \<lparr>exe = ''boot'', channels = [\<lparr>device = ''/dev/stdin''\<rparr>, \<lparr>device = ''/dev/stdout''\<rparr>],
          connect = [], bind = []\<rparr>
   \<and> list_all2 (\<lambda>n d. \<exists>pre suf. device d = pre @ device n @ suf)
        (sort_key device [\<lparr>device = ''stdout''\<rparr>, \<lparr>device = ''stdin''\<rparr>])
        [\<lparr>device = ''/dev/stdin''\<rparr>, \<lparr>device = ''/dev/stdout''\<rparr>]"
  using can_run_as_daemon_iff
    [of "\<lparr>exe = ''boot'', channels = [\<lparr>device = ''stdout''\<rparr>, \<lparr>device = ''stdin''\<rparr>],
          connect = [], bind = []\<rparr>"
        "\<lparr>exe = ''boot'', channels = [\<lparr>device = ''/dev/stdin''\<rparr>, \<lparr>device = ''/dev/stdout''\<rparr>],
          connect = [], bind = []\<rparr>"]
  by (simp add: can_run_as_daemon_def uses_network_def less_eq_char_def)

text \<open>
  The specification's wording fails on the code in both directions of its two differences:
  with no channels at all the code refuses although the worded predicate holds, and with
  the daemon's channels listed in another order than the sorted node channels the code
  refuses although every node device is contained in some daemon device.
\<close>

theorem can_run_as_daemon_counterexample:
  "spec_can_reuse \<lparr>exe = ''boot'', channels = [], connect = [], bind = []\<rparr>
                  \<lparr>exe = ''boot'', channels = [], connect = [], bind = []\<rparr>
   \<and> \<not> can_run_as_daemon \<lparr>exe = ''boot'', channels = [], connect = [], bind = []\<rparr>
                  \<lparr>exe = ''boot'', channels = [], connect = [], bind = []\<rparr>
   \<and> spec_can_reuse
        \<lparr>exe = ''boot'', channels = [\<lparr>device = ''stdin''\<rparr>, \<lparr>device = ''stdout''\<rparr>],
          connect = [], bind = []\<rparr>
        \<lparr>exe = ''boot'', channels = [\<lparr>device = ''/dev/stdout''\<rparr>, \<lparr>device = ''/dev/stdin''\<rparr>],
          connect = [], bind = []\<rparr>
   \<and> \<not> can_run_as_daemon
        \<lparr>exe = ''boot'', channels = [\<lparr>device = ''stdin''\<rparr>, \<lparr>device = ''stdout''\<rparr>],
          connect = [], bind = []\<rparr>
        \<lparr>exe = ''boot'', channels = [\<lparr>device = ''/dev/stdout''\<rparr>, \<lparr>device = ''/dev/stdin''\<rparr>],
          connect = [], bind = []\<rparr>"
  by (simp add: can_run_as_daemon_def spec_can_reuse_def uses_network_def less_eq_char_def)

section \<open>Channel resolution: uploaded files and system images\<close>

lemma bind_uploaded:
  "channels_d st (device (chans st ! i)) = Some p \<Longrightarrow>
   bind_uploaded_or_local env i st = (None, upd_chan i (\<lambda>c. c\<lparr>lpath := Some p\<rparr>) st)"
  by (simp add: bind_uploaded_or_local_def)

lemma upd_chan_nth: "i < length (chans st) \<Longrightarrow> chans (upd_chan i f st) ! i = f (chans st ! i)"
  by (simp add: upd_chan_def)

lemma resolve_channel_pass_uploaded:
  assumes i: "i < length (chans st)"
    and up: "channels_d st (device (chans st ! i)) = Some p"
  shows "(is_sysimage_device env (device (chans st ! i)) \<longrightarrow>
            fst (resolve_channel env i st) = None
            \<and> lpath (chans (snd (resolve_channel env i st)) ! i)
                = sysimage_devices env (device (chans st ! i)))
       \<and> (\<not> is_sysimage_device env (device (chans st ! i)) \<and> p \<noteq> []
            \<and> (READABLE \<in> access (chans st ! i) \<or> CDR \<in> access (chans st ! i)
                \<or> (WRITABLE \<notin> access (chans st ! i) \<and> NETWORK \<notin> access (chans st ! i))) \<longrightarrow>
            fst (resolve_channel env i st) = None
            \<and> lpath (chans (snd (resolve_channel env i st)) ! i) = Some p)"
  using i by (auto simp: resolve_channel_def bind_uploaded [OF up] assign_lpath_def Let_def
      upd_chan_def get_sysimage_def truthy_def)

lemma frame_refl: "frame i st st"
  by (simp add: frame_def)

lemma frame_trans: "frame i st st1 \<Longrightarrow> frame i st1 st2 \<Longrightarrow> frame i st st2"
  by (simp add: frame_def)

lemma frame_upd_chan:
  "i < length (chans st) \<Longrightarrow> device (f (chans st ! i)) = device (chans st ! i) \<Longrightarrow>
   path (f (chans st ! i)) = path (chans st ! i) \<Longrightarrow>
   access (f (chans st ! i)) = access (chans st ! i) \<Longrightarrow> frame i st (upd_chan i f st)"
  by (simp add: frame_def upd_chan_def)

lemma frame_bind_object:
  "i < length (chans st) \<Longrightarrow> frame i st (snd (bind_object env i st))"
  by (auto simp: bind_object_def Let_def frame_def upd_chan_def split: option.splits)

lemma frame_bind_container:
  "i < length (chans st) \<Longrightarrow> frame i st (snd (bind_container env i st))"
  by (auto simp: bind_container_def Let_def frame_def upd_chan_def split: option.splits)

lemma frame_set_local_channel:
  "frame i st (snd r) \<Longrightarrow> frame i st (snd (set_local_channel k r))"
  by (auto simp: set_local_channel_def frame_def split: prod.splits option.splits)

lemma frame_bind_uploaded_or_local:
  assumes "i < length (chans st)"
  shows "frame i st (snd (bind_uploaded_or_local env i st))"
proof (cases "channels_d st (device (chans st ! i))")
  case (Some p)
  then show ?thesis using assms
    by (simp add: bind_uploaded_or_local_def frame_upd_chan)
next
  case None
  show ?thesis
    using assms None frame_bind_object [OF assms, of env] frame_bind_container [OF assms, of env]
    by (auto simp: bind_uploaded_or_local_def Let_def frame_refl
        intro!: frame_set_local_channel split: option.splits location.splits)
qed

lemma frame_assign_lpath:
  "i < length (chans st) \<Longrightarrow> frame i st (snd (assign_lpath env i st))"
  by (auto simp: assign_lpath_def Let_def frame_def upd_chan_def mkstemp_def
      split: option.splits list.splits)

lemma frame_resolve_channel:
  assumes "i < length (chans st)"
  shows "frame i st (snd (resolve_channel env i st))"
proof (cases "bind_uploaded_or_local env i st")
  case (Pair r st1)
  have f1: "frame i st st1" using frame_bind_uploaded_or_local [OF assms, of env] Pair by simp
  then have "i < length (chans st1)" using assms by (simp add: frame_def)
  from frame_assign_lpath [OF this, of env] f1 Pair show ?thesis
    by (cases r) (auto simp: resolve_channel_def intro: frame_trans)
qed

lemma frame_device: "frame j st st1 \<Longrightarrow> device (chans st1 ! k) = device (chans st ! k)"
  by (cases "k = j") (simp_all add: frame_def)

lemma resolve_from_keeps:
  assumes "\<forall>j\<in>set js. j < length (chans st) \<and> j \<noteq> i \<and> device (chans st ! j) \<noteq> d"
  shows "chans (snd (resolve_from env js st)) ! i = chans st ! i
       \<and> channels_d (snd (resolve_from env js st)) d = channels_d st d
       \<and> length (chans (snd (resolve_from env js st))) = length (chans st)"
  using assms
proof (induction js arbitrary: st)
  case Nil
  show ?case by simp
next
  case (Cons j js)
  obtain r st1 where r: "resolve_channel env j st = (r, st1)" by (cases "resolve_channel env j st")
  from Cons.prems have j: "j < length (chans st)" "j \<noteq> i" "device (chans st ! j) \<noteq> d" by auto
  have fr: "frame j st st1" using frame_resolve_channel [OF j(1), of env] r by simp
  then have keep: "chans st1 ! i = chans st ! i" "channels_d st1 d = channels_d st d"
    "length (chans st1) = length (chans st)"
    using j by (auto simp: frame_def)
  show ?case
  proof (cases r)
    case (Some e)
    with r keep show ?thesis by simp
  next
    case None
    have "\<forall>k\<in>set js. k < length (chans st1) \<and> k \<noteq> i \<and> device (chans st1 ! k) \<noteq> d"
      using Cons.prems keep(3) frame_device [OF fr] by auto
    from Cons.IH [OF this] r None keep show ?thesis by simp
  qed
qed

lemma resolve_from_device:
  assumes "\<forall>j\<in>set js. j < length (chans st)"
  shows "device (chans (snd (resolve_from env js st)) ! k) = device (chans st ! k)
       \<and> length (chans (snd (resolve_from env js st))) = length (chans st)"
  using assms
proof (induction js arbitrary: st)
  case Nil
  show ?case by simp
next
  case (Cons j js)
  obtain r st1 where r: "resolve_channel env j st = (r, st1)" by (cases "resolve_channel env j st")
  from Cons.prems have j: "j < length (chans st)" by simp
  have fr: "frame j st st1" using frame_resolve_channel [OF j, of env] r by simp
  then have len: "length (chans st1) = length (chans st)" by (simp add: frame_def)
  show ?case
  proof (cases r)
    case (Some e)
    with r len frame_device [OF fr] show ?thesis by simp
  next
    case None
    have "\<forall>k\<in>set js. k < length (chans st1)" using Cons.prems len by simp
    from Cons.IH [OF this] r None len frame_device [OF fr] show ?thesis by simp
  qed
qed

lemma resolve_from_append:
  "resolve_from env (xs @ ys) st =
     (case resolve_from env xs st of
        (Some e, st') \<Rightarrow> (Some e, st')
      | (None, st') \<Rightarrow> resolve_from env ys st')"
  by (induction xs arbitrary: st) (auto split: prod.splits option.splits)

text \<open>
  C1 (as the code has it). The loop body runs two rule chains one after the other. For a
  channel whose device name is among the uploaded files, the first chain sets \<open>lpath\<close> to
  the uploaded path, and the second chain is entered all the same: there a channel that
  is WRITABLE and neither READABLE nor CDR gets a fresh temporary file, and a channel that
  is only NETWORK gets the path of its location. So the uploaded (non-empty) path is the
  resolved \<open>lpath\<close> of a channel whose access includes READABLE or CDR, or includes
  neither WRITABLE nor NETWORK. The statement is for a device name that is not a
  registered system-image name; nothing is stated here for a name that is both uploaded
  and registered. Stated for the whole loop, for a system map whose device names are
  distinct, when the loop ends without an error.
\<close>

theorem resolve_channels_uploaded:
  assumes dist: "distinct (map device (chans st))"
    and i: "i < length (chans st)"
    and up: "channels_d st (device (chans st ! i)) = Some p"
    and ok: "resolve_channels env st = (None, st')"
    and nosys: "\<not> is_sysimage_device env (device (chans st ! i))"
    and nonempty: "p \<noteq> []"
    and acc: "READABLE \<in> access (chans st ! i) \<or> CDR \<in> access (chans st ! i)
              \<or> (WRITABLE \<notin> access (chans st ! i) \<and> NETWORK \<notin> access (chans st ! i))"
  shows "lpath (chans st' ! i) = Some p"
proof -
  let ?n = "length (chans st)"
  let ?d = "device (chans st ! i)"
  have split: "[0..<?n] = [0..<i] @ i # [Suc i..<?n]"
    using i by (metis le_add1 less_imp_add_positive upt_add_eq_append upt_conv_Cons zero_less_iff_neq_zero add_0 le0 less_or_eq_imp_le upt_rec)
  have other: "j < ?n \<Longrightarrow> j \<noteq> i \<Longrightarrow> device (chans st ! j) \<noteq> ?d" for j
  proof -
    assume j: "j < ?n" "j \<noteq> i"
    have "(map device (chans st) ! j = map device (chans st) ! i) = (j = i)"
      using dist i j by (intro nth_eq_iff_index_eq) simp_all
    then show ?thesis using i j by simp
  qed
  obtain r0 st0 where r0: "resolve_from env [0..<i] st = (r0, st0)"
    by (cases "resolve_from env [0..<i] st")
  have pre: "\<forall>j\<in>set [0..<i]. j < ?n \<and> j \<noteq> i \<and> device (chans st ! j) \<noteq> ?d"
    using i other by auto
  from resolve_from_keeps [OF pre, of env] r0
  have k0: "chans st0 ! i = chans st ! i" "channels_d st0 ?d = Some p" "length (chans st0) = ?n"
    using up by auto
  obtain r1 st1 where r1: "resolve_channel env i st0 = (r1, st1)"
    by (cases "resolve_channel env i st0")
  from ok r0 r1 have none: "r0 = None" "r1 = None" and rest: "resolve_from env [Suc i..<?n] st1 = (None, st')"
    unfolding resolve_channels_def split resolve_from_append
    by (auto split: option.splits prod.splits)
  have i0: "i < length (chans st0)" using i k0 by simp
  have up0: "channels_d st0 (device (chans st0 ! i)) = Some p" using k0 by simp
  have fr: "frame i st0 st1" using frame_resolve_channel [OF i0, of env] r1 by simp
  have post: "\<forall>j\<in>set [Suc i..<?n]. j < length (chans st1) \<and> j \<noteq> i \<and> device (chans st1 ! j) \<noteq> ?d"
  proof
    fix j assume "j \<in> set [Suc i..<?n]"
    then have j: "j < ?n" "j \<noteq> i" by auto
    have "chans st1 ! j = chans st0 ! j" using fr j by (simp add: frame_def)
    moreover have "chans st0 ! j = chans (snd (resolve_from env [0..<i] st)) ! j" using r0 by simp
    ultimately have "device (chans st1 ! j) = device (chans st0 ! j)" by simp
    moreover have "device (chans st0 ! j) = device (chans st ! j)"
      using resolve_from_device [of "[0..<i]" st env j] i r0 by simp
    ultimately show "j < length (chans st1) \<and> j \<noteq> i \<and> device (chans st1 ! j) \<noteq> ?d"
      using j other fr k0 by (simp add: frame_def)
  qed
  from resolve_from_keeps [OF post, of env] rest
  have fin: "chans st' ! i = chans st1 ! i" by simp
  from resolve_channel_pass_uploaded [OF i0 up0, of env] r1 k0 fin nosys nonempty acc
  show ?thesis by simp
qed

theorem resolve_channels_uploaded_witness:
  "lpath (chans (snd (resolve_channels ex_env
      (ex_state [ex_chan ''input'' {READABLE},
                 ex_chan ''output'' {READABLE, WRITABLE, RANDOM}]))) ! 0)
     = Some ''/srv/node/sda1/tmp/job/input''
   \<and> lpath (chans (snd (resolve_channels ex_env
      (ex_state [ex_chan ''input'' {READABLE},
                 ex_chan ''output'' {READABLE, WRITABLE, RANDOM}]))) ! 1)
     = Some ''/srv/node/sda1/tmp/job/output''"
proof -
  let ?st = "ex_state [ex_chan ''input'' {READABLE},
                       ex_chan ''output'' {READABLE, WRITABLE, RANDOM}]"
  have ok: "resolve_channels ex_env ?st = (None, snd (resolve_channels ex_env ?st))"
    by (simp add: resolve_channels_def resolve_channel_def bind_uploaded_or_local_def
        assign_lpath_def Let_def upd_chan_def get_sysimage_def truthy_def ex_state_def
        ex_chan_def ex_env_def is_sysimage_device_def)
  have dist: "distinct (map device (chans ?st))"
    by (simp add: ex_state_def ex_chan_def)
  have up0: "channels_d ?st (device (chans ?st ! 0)) = Some ''/srv/node/sda1/tmp/job/input''"
    by (simp add: ex_state_def ex_chan_def)
  have up1: "channels_d ?st (device (chans ?st ! 1)) = Some ''/srv/node/sda1/tmp/job/output''"
    by (simp add: ex_state_def ex_chan_def)
  have i0: "0 < length (chans ?st)" and i1: "1 < length (chans ?st)"
    by (simp_all add: ex_state_def)
  have n0: "\<not> is_sysimage_device ex_env (device (chans ?st ! 0))"
    and n1: "\<not> is_sysimage_device ex_env (device (chans ?st ! 1))"
    by (simp_all add: ex_state_def ex_chan_def ex_env_def is_sysimage_device_def)
  have a0: "READABLE \<in> access (chans ?st ! 0) \<or> CDR \<in> access (chans ?st ! 0)
              \<or> (WRITABLE \<notin> access (chans ?st ! 0) \<and> NETWORK \<notin> access (chans ?st ! 0))"
    and a1: "READABLE \<in> access (chans ?st ! 1) \<or> CDR \<in> access (chans ?st ! 1)
              \<or> (WRITABLE \<notin> access (chans ?st ! 1) \<and> NETWORK \<notin> access (chans ?st ! 1))"
    by (simp_all add: ex_state_def ex_chan_def)
  have p0: "''/srv/node/sda1/tmp/job/input'' \<noteq> []" and p1: "''/srv/node/sda1/tmp/job/output'' \<noteq> []"
    by simp_all
  from resolve_channels_uploaded [OF dist i0 up0 ok n0 p0 a0]
    resolve_channels_uploaded [OF dist i1 up1 ok n1 p1 a1]
  show ?thesis by simp
qed

text \<open>
  The claim as worded fails on the code: a file uploaded under the name of a write-only
  channel does not become the channel's \<open>lpath\<close>, the channel gets a fresh temporary
  file; and a file uploaded under the name of a registered system image does not become
  the channel's \<open>lpath\<close> either.
\<close>

theorem resolve_channels_uploaded_counterexample:
  "channels_d (ex_state [ex_chan ''python'' {READABLE}]) ''python''
     = Some ''/srv/node/sda1/tmp/job/python''
   \<and> lpath (chans (snd (resolve_channels ex_env (ex_state [ex_chan ''python'' {READABLE}]))) ! 0)
     = Some ''/opt/zerovm/python.tar''
   \<and> channels_d (ex_state [ex_chan ''output'' {WRITABLE}]) ''output''
     = Some ''/srv/node/sda1/tmp/job/output''
   \<and> lpath (chans (snd (resolve_channels ex_env (ex_state [ex_chan ''output'' {WRITABLE}]))) ! 0)
     = Some ''/srv/node/sda1/tmp/tmpA''"
  by (simp add: resolve_channels_def resolve_channel_def bind_uploaded_or_local_def
      assign_lpath_def Let_def upd_chan_def get_sysimage_def truthy_def ex_state_def
      ex_chan_def ex_env_def is_sysimage_device_def mkstemp_def ex_lo_def)

section \<open>Temporary files of the response channel list on failure\<close>

text \<open>
  C3. A failure path that leaves a temporary file of the response channel list behind.
  The system map has a write-only channel \<open>stdout\<close> without a path and a readable channel
  \<open>table\<close> without a path, and no file named \<open>table\<close> was uploaded. The loop allocates the
  temporary file of \<open>stdout\<close> and appends the channel to the response channel list, then
  fails on \<open>table\<close> with 400. The exception leaves \<open>zerovm_query\<close> at once, so the state at
  the raise is the state at the end of the request: the file still exists.
\<close>

theorem resolve_channels_leaves_temp_file:
  "fst (resolve_channels ex_env (ex_state [ex_chan ''stdout'' {WRITABLE}, ex_chan ''table'' {READABLE}]))
     = Some (HTTPError \<lparr>status = 400,
         body = ''Could not resolve channel path '' @ [CHR 0x22, CHR 0x22] @ '' for device: table'',
         headers = None\<rparr>)
   \<and> map (\<lambda>i. lpath (chans (snd (resolve_channels ex_env
          (ex_state [ex_chan ''stdout'' {WRITABLE}, ex_chan ''table'' {READABLE}]))) ! i))
        (response_channels (snd (resolve_channels ex_env
          (ex_state [ex_chan ''stdout'' {WRITABLE}, ex_chan ''table'' {READABLE}]))))
     = [Some ''/srv/node/sda1/tmp/tmpA'']
   \<and> files (snd (resolve_channels ex_env
          (ex_state [ex_chan ''stdout'' {WRITABLE}, ex_chan ''table'' {READABLE}])))
        ''/srv/node/sda1/tmp/tmpA'' = Some []"
  by (simp add: resolve_channels_def resolve_channel_def bind_uploaded_or_local_def
      assign_lpath_def Let_def upd_chan_def get_sysimage_def truthy_def ex_state_def
      ex_chan_def ex_env_def is_sysimage_device_def mkstemp_def ex_lo_def)

section \<open>The report stage\<close>

lemma split_lf_length: "length (split_lf n s) \<le> Suc n"
  by (induction n arbitrary: s) auto

lemma channel_cleanup_ok:
  "\<forall>ch\<in>set chs. lpath ch \<noteq> None \<Longrightarrow> fst (channel_cleanup chs fs) = None"
  by (induction chs arbitrary: fs) (auto split: option.splits)

lemma channel_cleanup_keeps_none:
  "fs p = None \<Longrightarrow> snd (channel_cleanup chs fs) p = None"
  by (induction chs arbitrary: fs) (auto split: option.splits)

lemma channel_cleanup_unlinks:
  "\<forall>ch\<in>set chs. lpath ch \<noteq> None \<Longrightarrow> ch \<in> set chs \<Longrightarrow> lpath ch = Some p \<Longrightarrow>
   snd (channel_cleanup chs fs) p = None"
proof (induction chs arbitrary: fs)
  case Nil
  then show ?case by simp
next
  case (Cons c chs)
  show ?case
  proof (cases "lpath c = Some p")
    case True
    then show ?thesis by (simp add: channel_cleanup_keeps_none)
  next
    case False
    with Cons.prems have "ch \<in> set chs" by auto
    with Cons show ?thesis by (auto split: option.splits)
  qed
qed

lemma create_exec_error_returns:
  assumes "zerovm_retcode < 5" "\<forall>ch\<in>set chs. lpath ch \<noteq> None"
  shows "create_exec_error h zerovm_retcode out chs fs =
     (Returned \<lparr>status = 500,
        body = ''ERROR OBJ.QUERY retcode='' @ RETCODE_MAP ! zerovm_retcode
               @ '',  zerovm_stdout='' @ out,
        headers = Some (h\<lparr>x_nexe_status := ''ZeroVM runtime error''\<rparr>)\<rparr>,
      snd (channel_cleanup chs fs))"
  using assms channel_cleanup_ok [OF assms(2), of fs]
  by (cases "channel_cleanup chs fs") (simp add: create_exec_error_def RETCODE_MAP_def Let_def)

text \<open>
  C4 (as the code has it). The stdout of the run, with stderr appended when non-empty, is
  split on LF into at most 6 fields. Whenever fewer than 6 fields result or the run code
  is greater than 1, the request returns a 500 response whose body is
  \<open>ERROR OBJ.QUERY retcode=<name of the run code>,  zerovm_stdout=<the raw stdout>\<close>, whose
  \<open>x-nexe-status\<close> header is the fixed text \<open>ZeroVM runtime error\<close>, and every file of the
  response channel list is unlinked. The run code is one of 0 to 4, and every response
  channel has its \<open>lpath\<close>, as the channel loop leaves them.
\<close>

theorem handle_report_error:
  assumes rc: "zerovm_retcode \<le> 4"
    and lp: "\<forall>ch\<in>set response_chs. lpath ch \<noteq> None"
    and bad: "length (split_lf 5 (if zerovm_stderr \<noteq> [] then out @ zerovm_stderr else out)) < 6
              \<or> zerovm_retcode > 1"
  shows "length (split_lf 5 (if zerovm_stderr \<noteq> [] then out @ zerovm_stderr else out)) \<le> 6
    \<and> (\<exists>h. handle_report py_int nexe_headers (zerovm_retcode, out, zerovm_stderr) response_chs fs
          = (Returned \<lparr>status = 500,
               body = ''ERROR OBJ.QUERY retcode='' @ RETCODE_MAP ! zerovm_retcode
                      @ '',  zerovm_stdout=''
                      @ (if zerovm_stderr \<noteq> [] then out @ zerovm_stderr else out),
               headers = Some (h\<lparr>x_nexe_status := ''ZeroVM runtime error''\<rparr>)\<rparr>,
             snd (channel_cleanup response_chs fs)))
    \<and> (\<forall>ch\<in>set response_chs. \<forall>p. lpath ch = Some p \<longrightarrow>
          snd (handle_report py_int nexe_headers (zerovm_retcode, out, zerovm_stderr)
                 response_chs fs) p = None)"
proof -
  let ?out = "if zerovm_stderr \<noteq> [] then out @ zerovm_stderr else out"
  have rc5: "zerovm_retcode < 5" using rc by simp
  have len: "length (split_lf 5 ?out) \<le> 6" using split_lf_length [of 5 ?out] by simp
  have ex: "\<exists>h. handle_report py_int nexe_headers (zerovm_retcode, out, zerovm_stderr) response_chs fs
      = create_exec_error h zerovm_retcode ?out response_chs fs"
    using bad by (auto simp: handle_report_def REPORT_LENGTH_def Let_def split: prod.splits option.splits)
  then obtain h where h: "handle_report py_int nexe_headers (zerovm_retcode, out, zerovm_stderr) response_chs fs
      = create_exec_error h zerovm_retcode ?out response_chs fs" by blast
  note ce = create_exec_error_returns [OF rc5 lp, of h ?out fs]
  have "\<forall>ch\<in>set response_chs. \<forall>p. lpath ch = Some p \<longrightarrow>
          snd (handle_report py_int nexe_headers (zerovm_retcode, out, zerovm_stderr)
                 response_chs fs) p = None"
    using channel_cleanup_unlinks [OF lp] by (simp add: h ce)
  moreover have "\<exists>h. handle_report py_int nexe_headers (zerovm_retcode, out, zerovm_stderr) response_chs fs
          = (Returned \<lparr>status = 500,
               body = ''ERROR OBJ.QUERY retcode='' @ RETCODE_MAP ! zerovm_retcode
                      @ '',  zerovm_stdout='' @ ?out,
               headers = Some (h\<lparr>x_nexe_status := ''ZeroVM runtime error''\<rparr>)\<rparr>,
             snd (channel_cleanup response_chs fs))"
    using h ce by auto
  ultimately show ?thesis using len by blast
qed

theorem handle_report_error_witness:
  "length (split_lf 5 ''boom'') \<le> 6
   \<and> (\<exists>h. handle_report digits_to_int (initial_nexe_headers ''Policy-0'') (4, ''boom'', [])
            [ex_chan ''stdout'' {WRITABLE}\<lparr>lpath := Some ''/srv/node/sda1/tmp/tmpA''\<rparr>]
            [''/srv/node/sda1/tmp/tmpA'' \<mapsto> ''partial'']
          = (Returned \<lparr>status = 500,
               body = ''ERROR OBJ.QUERY retcode=Output too long,  zerovm_stdout=boom'',
               headers = Some (h\<lparr>x_nexe_status := ''ZeroVM runtime error''\<rparr>)\<rparr>,
             Map.empty))
   \<and> snd (handle_report digits_to_int (initial_nexe_headers ''Policy-0'') (4, ''boom'', [])
            [ex_chan ''stdout'' {WRITABLE}\<lparr>lpath := Some ''/srv/node/sda1/tmp/tmpA''\<rparr>]
            [''/srv/node/sda1/tmp/tmpA'' \<mapsto> ''partial''])
         ''/srv/node/sda1/tmp/tmpA'' = None"
  using handle_report_error [of 4
      "[ex_chan ''stdout'' {WRITABLE}\<lparr>lpath := Some ''/srv/node/sda1/tmp/tmpA''\<rparr>]"
      "[]" "''boom''" digits_to_int "initial_nexe_headers ''Policy-0''"
      "[''/srv/node/sda1/tmp/tmpA'' \<mapsto> ''partial'']"]
  by (simp add: ex_chan_def RETCODE_MAP_def)

text \<open>
  The claim as worded fails for the header: the raw stdout is in the body only, the
  \<open>x-nexe-status\<close> header of the error response is a fixed text.
\<close>

theorem handle_report_error_counterexample:
  "fst (handle_report digits_to_int (initial_nexe_headers ''Policy-0'') (1, ''oops'', []) []
          Map.empty)
     = Returned \<lparr>status = 500,
         body = ''ERROR OBJ.QUERY retcode=Error,  zerovm_stdout=oops'',
         headers = Some ((initial_nexe_headers ''Policy-0'')
                     \<lparr>x_nexe_status := ''ZeroVM runtime error''\<rparr>)\<rparr>
   \<and> x_nexe_status ((initial_nexe_headers ''Policy-0'')
         \<lparr>x_nexe_status := ''ZeroVM runtime error''\<rparr>) \<noteq> ''oops''"
  by (simp add: handle_report_def REPORT_LENGTH_def create_exec_error_def RETCODE_MAP_def
      Let_def eval_nat_numeral)

section \<open>Bounded output of the sandbox\<close>

lemma read_stream_grows:
  "length (stdout_data st) \<le> length (stdout_data (read_stream s st))
   \<and> length (stderr_data st) \<le> length (stderr_data (read_stream s st))"
  by (cases s) (auto split: prod.splits)

lemma fold_read_stream_grows:
  "length (stdout_data st) \<le> length (stdout_data (fold read_stream ss st))
   \<and> length (stderr_data st) \<le> length (stderr_data (fold read_stream ss st))"
proof (induction ss arbitrary: st)
  case Nil
  show ?case by simp
next
  case (Cons s ss)
  from Cons.IH [of "read_stream s st"] read_stream_grows [of st s]
  show ?case by auto
qed

lemma too_long_read_from_std: "too_long st \<Longrightarrow> too_long (read_from_std a b st)"
  using fold_read_stream_grows [of st "filter (is_ready a b) (readable st)"]
  by (auto simp: too_long_def read_from_std_def)

lemma too_long_feed: "too_long st \<Longrightarrow> too_long (feed rs st)"
  by (induction rs arbitrary: st) (simp_all add: feed_def too_long_read_from_std)

lemma read_from_std_idle: "readable st = [] \<Longrightarrow> read_from_std a b st = st"
  by (simp add: read_from_std_def)

lemma feed_idle: "readable st = [] \<Longrightarrow> feed rs st = st"
  by (induction rs) (simp_all add: feed_def read_from_std_idle)

lemma feed_Cons: "feed (r # rs) st = feed rs (read_from_std (fst r) (snd r) st)"
  by (simp add: feed_def)

lemma read_loop_too_long:
  "\<not> too_long st \<Longrightarrow> too_long (feed pre st) \<Longrightarrow>
   fst (read_loop (map ready_round pre @ rest) st) = TooLong
   \<and> too_long (snd (read_loop (map ready_round pre @ rest) st))"
proof (induction pre arbitrary: st)
  case Nil
  then show ?case by (simp add: feed_def)
next
  case (Cons r pre)
  show ?case
  proof (cases "readable st = []")
    case True
    with Cons.prems show ?thesis by (simp add: feed_idle)
  next
    case False
    show ?thesis
    proof (cases "too_long (read_from_std (fst r) (snd r) st)")
      case True
      with False show ?thesis by (simp add: ready_round_def)
    next
      case nl: False
      from Cons.prems have "too_long (feed pre (read_from_std (fst r) (snd r) st))"
        by (simp add: feed_Cons)
      from Cons.IH [OF nl this] False nl show ?thesis by (simp add: ready_round_def)
    qed
  qed
qed

lemma read_loop_finished:
  "readable (feed pre st) = [] \<Longrightarrow> \<not> too_long (feed pre st) \<Longrightarrow>
   read_loop (map ready_round pre @ rest) st = (Finished, feed pre st)"
proof (induction pre arbitrary: st)
  case Nil
  then show ?case by (cases rest) (simp_all add: feed_def)
next
  case (Cons r pre)
  show ?case
  proof (cases "readable st = []")
    case True
    then show ?thesis by (simp add: feed_idle)
  next
    case False
    have nl: "\<not> too_long (read_from_std (fst r) (snd r) st)"
      using Cons.prems(2) too_long_feed [of "read_from_std (fst r) (snd r) st" pre]
      by (auto simp: feed_Cons)
    from Cons.IH [of "read_from_std (fst r) (snd r) st"] Cons.prems False nl
    show ?thesis by (simp add: feed_Cons ready_round_def)
  qed
qed

lemma read_loop_keeps_bound:
  "\<not> too_long st \<Longrightarrow> fst (read_loop rs st) \<noteq> TooLong \<Longrightarrow> \<not> too_long (snd (read_loop rs st))"
proof (induction rs arbitrary: st)
  case Nil
  then show ?case by simp
next
  case (Cons r rs)
  show ?case
  proof (cases "readable st = []")
    case True
    with Cons.prems show ?thesis by simp
  next
    case False
    show ?thesis
    proof (cases r)
      case Expire
      with False Cons.prems show ?thesis by simp
    next
      case (Ready a b)
      show ?thesis
      proof (cases "too_long (read_from_std a b st)")
        case True
        with False Ready Cons.prems show ?thesis by simp
      next
        case nl: False
        from Cons.IH [OF nl] Cons.prems False Ready nl show ?thesis by simp
      qed
    qed
  qed
qed

lemma pipes_ok_read_stream: "pipes_ok proc st \<Longrightarrow> pipes_ok proc (read_stream s st)"
proof (cases s)
  case Stdout
  assume ok: "pipes_ok proc st"
  show ?thesis
  proof (cases "out_pipe st")
    case Nil
    with ok Stdout show ?thesis by (auto simp: pipes_ok_def os_read_def)
  next
    case (Cons c cs)
    with ok have "c \<noteq> []" by (auto simp: pipes_ok_def)
    then have "take 4096 c \<noteq> []" by (cases c) simp_all
    moreover have td: "take 4096 c @ drop 4096 c @ concat cs = c @ concat cs"
      by (metis append_assoc append_take_drop_id)
    have "stdout_data st @ c @ concat cs = concat (c_stdout proc)"
      using ok Cons by (simp add: pipes_ok_def)
    then have "stdout_data st @ take 4096 c @ drop 4096 c @ concat cs = concat (c_stdout proc)"
      by (simp only: td)
    ultimately show ?thesis using ok Stdout Cons
      by (auto simp: pipes_ok_def os_read_def)
  qed
next
  case Stderr
  assume ok: "pipes_ok proc st"
  show ?thesis
  proof (cases "err_pipe st")
    case Nil
    with ok Stderr show ?thesis by (auto simp: pipes_ok_def os_read_def)
  next
    case (Cons c cs)
    with ok have "c \<noteq> []" by (auto simp: pipes_ok_def)
    then have "take 4096 c \<noteq> []" by (cases c) simp_all
    moreover have td: "take 4096 c @ drop 4096 c @ concat cs = c @ concat cs"
      by (metis append_assoc append_take_drop_id)
    have "stderr_data st @ c @ concat cs = concat (c_stderr proc)"
      using ok Cons by (simp add: pipes_ok_def)
    then have "stderr_data st @ take 4096 c @ drop 4096 c @ concat cs = concat (c_stderr proc)"
      by (simp only: td)
    ultimately show ?thesis using ok Stderr Cons
      by (auto simp: pipes_ok_def os_read_def)
  qed
qed

lemma pipes_ok_fold: "pipes_ok proc st \<Longrightarrow> pipes_ok proc (fold read_stream ss st)"
  by (induction ss arbitrary: st) (simp_all add: pipes_ok_read_stream)

lemma pipes_ok_feed: "pipes_ok proc st \<Longrightarrow> pipes_ok proc (feed rs st)"
  by (induction rs arbitrary: st) (simp_all add: feed_def read_from_std_def pipes_ok_fold)

lemma pipes_ok_start:
  "[] \<notin> set (c_stdout proc) \<Longrightarrow> [] \<notin> set (c_stderr proc) \<Longrightarrow> pipes_ok proc (start_state proc)"
  by (simp add: pipes_ok_def start_state_def)

lemma not_too_long_start: "\<not> too_long (start_state proc)"
  by (simp add: too_long_def start_state_def)

lemma execute_zerovm_too_long:
  assumes "too_long (feed pre (start_state proc))"
  shows "fst (fst (execute_zerovm proc (map ready_round pre @ rest) kill_rounds)) = 4
       \<and> snd (execute_zerovm proc (map ready_round pre @ rest) kill_rounds) = [SIGKILL]"
  using read_loop_too_long [OF not_too_long_start assms, of rest]
  by (cases "read_loop (map ready_round pre @ rest) (start_state proc)")
     (simp add: execute_zerovm_def)

lemma execute_zerovm_too_long_after_terminate:
  assumes ex: "read_loop rounds (start_state proc) = (Expired, st)"
    and tl: "too_long (feed pre st)"
  shows "fst (fst (execute_zerovm proc rounds (map ready_round pre @ rest))) = 4
       \<and> snd (execute_zerovm proc rounds (map ready_round pre @ rest)) = [SIGTERM, SIGKILL]"
proof -
  have "\<not> too_long st"
    using read_loop_keeps_bound [OF not_too_long_start, of rounds proc] ex by simp
  from read_loop_too_long [OF this tl, of rest] ex show ?thesis
    by (cases "read_loop (map ready_round pre @ rest) st") (simp add: execute_zerovm_def)
qed

lemma execute_zerovm_eof:
  assumes ne: "[] \<notin> set (c_stdout proc)" "[] \<notin> set (c_stderr proc)"
    and eof: "readable (feed pre (start_state proc)) = []"
    and nl: "\<not> too_long (feed pre (start_state proc))"
  shows "execute_zerovm proc (map ready_round pre @ rest) kill_rounds
           = ((if returncode proc = 0 then 0 else 1,
               stdout_data (feed pre (start_state proc)),
               stderr_data (feed pre (start_state proc))), [])
       \<and> stdout_data (feed pre (start_state proc)) = concat (c_stdout proc)
       \<and> stderr_data (feed pre (start_state proc)) = concat (c_stderr proc)"
proof -
  let ?st = "feed pre (start_state proc)"
  have ok: "pipes_ok proc ?st" using pipes_ok_feed [OF pipes_ok_start [OF ne]] .
  with eof have empty: "out_pipe ?st = []" "err_pipe ?st = []" by (auto simp: pipes_ok_def)
  with ok have all: "stdout_data ?st = concat (c_stdout proc)" "stderr_data ?st = concat (c_stderr proc)"
    by (auto simp: pipes_ok_def)
  from read_loop_finished [OF eof nl, of rest] empty all show ?thesis
    by (simp add: execute_zerovm_def get_final_status_def)
qed

lemma execute_zerovm_code_range: "fst (fst (execute_zerovm proc rounds kill_rounds)) \<le> 4"
  by (auto simp: execute_zerovm_def get_final_status_def split: prod.splits loop_end.splits)

text \<open>
  What the two reading loops do check. The stdout cap is 65536. Whenever the bytes
  accumulated by the reading rounds exceed the stdout cap or the stderr cap, before the
  deadline or after \<open>proc.terminate()\<close>, \<open>execute_zerovm\<close> kills the child and returns run
  code 4. When both pipes reach the end of file before the deadline, within the caps, it
  returns 0 if the child's exit code is zero and 1 otherwise, with the accumulated stdout
  and stderr, which are all the child wrote. (\<open>os.read\<close> returns the empty string at the
  end of file only.)
\<close>

lemma execute_zerovm_loop_checks:
  "zerovm_stdout_size = 65536
   \<and> (too_long (feed pre (start_state proc)) \<longrightarrow>
        fst (fst (execute_zerovm proc (map ready_round pre @ rest) kill_rounds)) = 4
        \<and> snd (execute_zerovm proc (map ready_round pre @ rest) kill_rounds) = [SIGKILL])
   \<and> (read_loop rounds (start_state proc) = (Expired, st) \<and> too_long (feed pre st) \<longrightarrow>
        fst (fst (execute_zerovm proc rounds (map ready_round pre @ rest))) = 4
        \<and> snd (execute_zerovm proc rounds (map ready_round pre @ rest)) = [SIGTERM, SIGKILL])
   \<and> ([] \<notin> set (c_stdout proc) \<and> [] \<notin> set (c_stderr proc)
        \<and> readable (feed pre (start_state proc)) = []
        \<and> \<not> too_long (feed pre (start_state proc)) \<longrightarrow>
        execute_zerovm proc (map ready_round pre @ rest) kill_rounds
          = ((if returncode proc = 0 then 0 else 1,
              stdout_data (feed pre (start_state proc)),
              stderr_data (feed pre (start_state proc))), [])
        \<and> stdout_data (feed pre (start_state proc)) = concat (c_stdout proc)
        \<and> stderr_data (feed pre (start_state proc)) = concat (c_stderr proc))"
  using execute_zerovm_too_long [of pre proc rest kill_rounds]
    execute_zerovm_too_long_after_terminate [of rounds proc st pre rest]
    execute_zerovm_eof [of proc pre rest kill_rounds]
  by (simp add: zerovm_stdout_size_def)

lemma read_chatty:
  "k \<ge> 4097 \<Longrightarrow> read_from_std True False
     \<lparr>readable = [Stdout, Stderr], stdout_data = replicate n CHR ''x'', stderr_data = [],
      out_pipe = [replicate k CHR ''x''], err_pipe = []\<rparr>
   = \<lparr>readable = [Stdout, Stderr], stdout_data = replicate (n + 4096) CHR ''x'', stderr_data = [],
      out_pipe = [replicate (k - 4096) CHR ''x''], err_pipe = []\<rparr>"
  by (simp add: read_from_std_def is_ready_def os_read_def replicate_add min_def)

lemma feed_chatty:
  "k \<ge> 4096 * m + 1 \<Longrightarrow> feed (replicate m (True, False))
     \<lparr>readable = [Stdout, Stderr], stdout_data = replicate n CHR ''x'', stderr_data = [],
      out_pipe = [replicate k CHR ''x''], err_pipe = []\<rparr>
   = \<lparr>readable = [Stdout, Stderr], stdout_data = replicate (n + 4096 * m) CHR ''x'', stderr_data = [],
      out_pipe = [replicate (k - 4096 * m) CHR ''x''], err_pipe = []\<rparr>"
proof (induction m arbitrary: n k)
  case 0
  show ?case by (simp add: feed_def)
next
  case (Suc m)
  have "feed (replicate (Suc m) (True, False))
     \<lparr>readable = [Stdout, Stderr], stdout_data = replicate n CHR ''x'', stderr_data = [],
      out_pipe = [replicate k CHR ''x''], err_pipe = []\<rparr>
    = feed (replicate m (True, False)) \<lparr>readable = [Stdout, Stderr], stdout_data = replicate (n + 4096) CHR ''x'', stderr_data = [],
      out_pipe = [replicate (k - 4096) CHR ''x''], err_pipe = []\<rparr>"
    using Suc.prems by (simp add: feed_Cons read_chatty)
  also have "\<dots> = \<lparr>readable = [Stdout, Stderr], stdout_data = replicate (n + 4096 + 4096 * m) CHR ''x'', stderr_data = [],
      out_pipe = [replicate (k - 4096 - 4096 * m) CHR ''x''], err_pipe = []\<rparr>"
    using Suc.prems by (intro Suc.IH) simp
  finally show ?case by (simp add: algebra_simps)
qed

lemma too_long_chatty: "too_long (feed stdout_reads (start_state chatty_child))"
  using feed_chatty [of 17 70000 0]
  by (simp add: stdout_reads_def start_state_def chatty_child_def too_long_def zerovm_stdout_size_def)

lemma execute_zerovm_loop_checks_examples:
  "fst (fst (execute_zerovm chatty_child (map ready_round stdout_reads @ []) [])) = 4
   \<and> snd (execute_zerovm chatty_child (map ready_round stdout_reads @ []) []) = [SIGKILL]
   \<and> fst (fst (execute_zerovm chatty_child [Expire] (map ready_round stdout_reads @ []))) = 4
   \<and> snd (execute_zerovm chatty_child [Expire] (map ready_round stdout_reads @ []))
       = [SIGTERM, SIGKILL]
   \<and> execute_zerovm quiet_child (map ready_round [(True, True), (True, False)] @ []) []
       = ((0, ''ok'', []), [])"
proof -
  have ex: "read_loop [Expire] (start_state chatty_child) = (Expired, start_state chatty_child)"
    by (simp add: start_state_def)
  have q: "[] \<notin> set (c_stdout quiet_child) \<and> [] \<notin> set (c_stderr quiet_child)
        \<and> readable (feed [(True, True), (True, False)] (start_state quiet_child)) = []
        \<and> \<not> too_long (feed [(True, True), (True, False)] (start_state quiet_child))"
    by (simp add: quiet_child_def feed_def read_from_std_def is_ready_def os_read_def
        start_state_def too_long_def zerovm_stdout_size_def zerovm_stderr_size_def)
  have d: "stdout_data (feed [(True, True), (True, False)] (start_state quiet_child)) = ''ok''
        \<and> stderr_data (feed [(True, True), (True, False)] (start_state quiet_child)) = []"
    by (simp add: quiet_child_def feed_def read_from_std_def is_ready_def os_read_def
        start_state_def)
  from execute_zerovm_loop_checks [of stdout_reads chatty_child "[]" "[]" "[Expire]" "start_state chatty_child"]
    execute_zerovm_loop_checks [of "[(True, True), (True, False)]" quiet_child "[]" "[]" "[Expire]" "start_state chatty_child"]
    too_long_chatty ex q d
  show ?thesis by (simp add: quiet_child_def)
qed

text \<open>
  C6. A run whose accumulated stdout exceeds the cap and that does not return run code 4.
  The child ignores the terminate signal. One round of the reading loop takes 4096 bytes
  of its stdout, then the deadline expires; after \<open>proc.terminate()\<close> the kill deadline
  expires as well, with 65536 more bytes unread in the stdout pipe. \<open>get_final_status\<close>
  appends what \<open>proc.communicate()\<close> returns with no check of the size, and the run
  returns code 3 with 69632 bytes of stdout, more than the cap of 65536.
\<close>

theorem execute_zerovm_killed_over_cap:
  "fst (fst (execute_zerovm stubborn_child [Ready True False, Expire] [Expire])) = 3
   \<and> length (fst (snd (fst (execute_zerovm stubborn_child [Ready True False, Expire] [Expire]))))
       = 69632
   \<and> zerovm_stdout_size = 65536
   \<and> snd (execute_zerovm stubborn_child [Ready True False, Expire] [Expire])
       = [SIGTERM, SIGKILL]"
  by (simp add: execute_zerovm_def stubborn_child_def start_state_def read_from_std_def
      is_ready_def os_read_def too_long_def zerovm_stdout_size_def zerovm_stderr_size_def
      get_final_status_def)

section \<open>The daemon wire framing\<close>

lemma hex_digits_length_pos: "0 < length (hex_digits n)"
  by (subst hex_digits.simps) simp

lemma hex_digits_length_le: "0 < k \<Longrightarrow> length (hex_digits n) \<le> k \<longleftrightarrow> n < 16 ^ k"
proof (induction n arbitrary: k rule: hex_digits.induct)
  case (1 n)
  show ?case
  proof (cases "n < 16")
    case True
    have "(16::nat) ^ 1 \<le> 16 ^ k" using 1 by (intro power_increasing) simp_all
    with True have "n < 16 ^ k" by simp
    moreover have "length (hex_digits n) = 1" using True by (subst hex_digits.simps) simp
    ultimately show ?thesis using 1(2) by simp
  next
    case False
    have len: "length (hex_digits n) = Suc (length (hex_digits (n div 16)))"
      using False by (subst hex_digits.simps) simp
    show ?thesis
    proof (cases k)
      case 0
      with 1 show ?thesis by simp
    next
      case (Suc j)
      show ?thesis
      proof (cases "j = 0")
        case True
        with Suc False len hex_digits_length_pos [of "n div 16"] show ?thesis by simp
      next
        case jpos: False
        then have "length (hex_digits (n div 16)) \<le> j \<longleftrightarrow> n div 16 < 16 ^ j"
          using 1(1) [OF False, of j] by simp
        moreover have "n div 16 < 16 ^ j \<longleftrightarrow> n < 16 ^ Suc j"
          by (simp add: div_less_iff_less_mult mult.commute)
        ultimately show ?thesis using Suc len by simp
      qed
    qed
  qed
qed

lemma format_0x06x_length: "length (format_0x06x n) = 8 \<longleftrightarrow> n < 16777216"
proof -
  have "length (hex_digits n) \<le> 6 \<longleftrightarrow> n < 16 ^ 6" by (rule hex_digits_length_le) simp
  then show ?thesis by (auto simp: format_0x06x_def)
qed

lemma send_to_socket_closes: "closed (snd (send_to_socket py_int0 s m))"
  by (auto simp: send_to_socket_def Let_def split: send_result.splits prod.splits
      recv_end.splits option.splits)

lemma send_to_socket_code_range: "fst (fst (send_to_socket py_int0 s m)) \<le> 4"
  by (auto simp: send_to_socket_def Let_def exc_result_def split: send_result.splits prod.splits
      recv_end.splits option.splits)

lemma send_to_socket_sent:
  "sendall_result s = Sent \<Longrightarrow>
   sent (snd (send_to_socket py_int0 s m)) = sent s @ format_0x06x (length m) @ m"
  by (auto simp: send_to_socket_def Let_def recv_def split: prod.splits
      recv_end.splits option.splits list.splits recv_result.splits if_splits)

lemma send_to_socket_too_long:
  assumes "sendall_result s = Sent" "incoming s = Data d # rest"
    "py_int0 (take 8 d) = Some n" "n > int zerovm_stdout_size"
  shows "fst (send_to_socket py_int0 s m) = (4, ''Output too long'', [])
       \<and> incoming (snd (send_to_socket py_int0 s m))
           = (if drop 8 d = [] then rest else Data (drop 8 d) # rest)"
  using assms by (simp add: send_to_socket_def Let_def recv_def)

lemma send_to_socket_report:
  assumes "sendall_result s = Sent" "incoming s = Data d # Data r # rest" "length d \<le> 8"
    "py_int0 d = Some n" "0 < n" "n \<le> int zerovm_stdout_size"
  shows "fst (send_to_socket py_int0 s m) = (0, take (nat n) r, [])"
  using assms by (simp add: send_to_socket_def Let_def recv_def)

text \<open>
  What the exchange does. It sends the length of the manifest formatted
  \<open>'0x%06x'\<close>, followed by the manifest bytes; the prefix has 8 bytes exactly when the
  manifest is shorter than \<open>16^6 = 16777216\<close> bytes. It then reads up to 8 bytes and takes
  them as a length. For every reply whose announced length exceeds the stdout cap it
  returns run code 4 and reads no more from the socket. A reply with a length from 1 to the
  cap, followed by the report, returns run code 0 with the (at most that many) bytes of
  the report as stdout. The socket is closed in every case.
\<close>

lemma send_to_socket_exchange:
  assumes "sendall_result s = Sent"
  shows "sent (snd (send_to_socket py_int0 s m)) = sent s @ format_0x06x (length m) @ m
    \<and> (length (format_0x06x (length m)) = 8 \<longleftrightarrow> length m < 16777216)
    \<and> closed (snd (send_to_socket py_int0 s m))
    \<and> (incoming s = Data d # rest \<and> py_int0 (take 8 d) = Some n \<and> n > int zerovm_stdout_size \<longrightarrow>
         fst (send_to_socket py_int0 s m) = (4, ''Output too long'', [])
         \<and> incoming (snd (send_to_socket py_int0 s m))
             = (if drop 8 d = [] then rest else Data (drop 8 d) # rest))
    \<and> (incoming s = Data d # Data r # rest \<and> length d \<le> 8 \<and> py_int0 d = Some n
         \<and> 0 < n \<and> n \<le> int zerovm_stdout_size \<longrightarrow>
         fst (send_to_socket py_int0 s m) = (0, take (nat n) r, []))"
  using assms send_to_socket_sent [of s py_int0 m] send_to_socket_closes [of py_int0 s m]
    send_to_socket_too_long [of s d rest py_int0 n m]
    send_to_socket_report [of s d r rest py_int0 n m]
  by (simp add: format_0x06x_length)

lemma send_to_socket_exchange_examples:
  "sent (snd (send_to_socket hex_to_int
      \<lparr>sendall_result = Sent, incoming = [Data ''0x020000'', Data ''never read''], sent = [],
       closed = False\<rparr> ''Version=20130611''))
     = ''0x000010Version=20130611''
   \<and> fst (send_to_socket hex_to_int
      \<lparr>sendall_result = Sent, incoming = [Data ''0x020000'', Data ''never read''], sent = [],
       closed = False\<rparr> ''Version=20130611'')
     = (4, ''Output too long'', [])
   \<and> incoming (snd (send_to_socket hex_to_int
      \<lparr>sendall_result = Sent, incoming = [Data ''0x020000'', Data ''never read''], sent = [],
       closed = False\<rparr> ''Version=20130611''))
     = [Data ''never read'']
   \<and> fst (send_to_socket hex_to_int
      \<lparr>sendall_result = Sent, incoming = [Data ''0x000003'', Data ''0 0''], sent = [],
       closed = False\<rparr> ''Version=20130611'')
     = (0, ''0 0'', [])"
proof -
  have big: "hex_to_int (take 8 ''0x020000'') = Some 131072"
    and small: "hex_to_int ''0x000003'' = Some 3"
    by (simp_all add: hex_to_int_def hex_val_def less_eq_char_def)
  have fmt: "format_0x06x (length ''Version=20130611'') = ''0x000010''"
    by code_simp
  from send_to_socket_exchange
      [of "\<lparr>sendall_result = Sent, incoming = [Data ''0x020000'', Data ''never read''], sent = [],
       closed = False\<rparr>" hex_to_int "''Version=20130611''" "''0x020000''" "[Data ''never read'']"
        131072 "[]"]
    send_to_socket_exchange
      [of "\<lparr>sendall_result = Sent, incoming = [Data ''0x000003'', Data ''0 0''], sent = [],
       closed = False\<rparr>" hex_to_int "''Version=20130611''" "''0x000003''" "[]" 3 "''0 0''"]
    big small fmt
  show ?thesis by (simp add: zerovm_stdout_size_def)
qed

text \<open>
  C7. A manifest whose length prefix is not 8 bytes. The function frames both directions
  with 8 bytes (\<open>SIZE = 8\<close>, the reply's length is read with \<open>recv(SIZE)\<close>), and \<open>'%06x'\<close>
  gives six hexadecimal digits only up to \<open>0xffffff\<close>. For a manifest of \<open>16^6 = 16777216\<close>
  bytes it sends the nine bytes \<open>0x1000000\<close> before the manifest.
\<close>

theorem send_to_socket_long_manifest:
  "sent (snd (send_to_socket hex_to_int
      \<lparr>sendall_result = Sent, incoming = [], sent = [], closed = False\<rparr>
      (replicate 16777216 CHR ''m'')))
     = ''0x1000000'' @ replicate 16777216 CHR ''m''
   \<and> length ''0x1000000'' = 9"
  by (simp add: send_to_socket_def Let_def recv_def format_0x06x_def hex_digits.simps
      hex_char_def hex_to_int_def)

section \<open>Failures while a request is ingested\<close>

lemma read_chunks_skip:
  "list_all (chunk_ok nd b) pre \<Longrightarrow>
   read_chunks nd h (upload_start b + max_upload_time nd) (pre @ rest)
     = read_chunks nd h (upload_start b + max_upload_time nd) rest"
  by (induction pre) (simp_all add: chunk_ok_def)

lemma ingest_body:
  "reaches_body nd req h \<Longrightarrow> ingest nd req b = read_body nd req h b"
  by (auto simp: reaches_body_def ingest_def)

lemma ingest_no_job_id:
  "\<not> truthy (x_zerocloud_id req) \<Longrightarrow> status_of (ingest nd req b) = Some 500"
  by (simp add: ingest_def check_headers_def status_of_def http_def)

lemma ingest_content_type:
  assumes "truthy (x_zerocloud_id req)" "name_and_placement req = Inr pl"
    and "content_length req = None \<or> (\<exists>l n. content_length req = Some l \<and> int_of nd l = Some n \<and> n \<le> n_rbytes nd)"
    and "content_type req = None \<or> (\<exists>ct. content_type req = Some ct \<and> ct \<notin> set TAR_MIMES)"
  shows "status_of (ingest nd req b) = Some 400"
  using assms
  by (auto simp: ingest_def check_headers_def status_of_def http_def Let_def)

lemma ingest_too_large:
  assumes "reaches_body nd req h" "chunks b = pre @ c # rest" "list_all (chunk_ok nd b) pre"
    "position c > n_rbytes nd"
  shows "status_of (ingest nd req b) = Some 413"
  using assms read_chunks_skip [of nd b pre h "c # rest"]
  by (simp add: ingest_body read_body_def status_of_def http_def)

lemma ingest_timeout:
  assumes "reaches_body nd req h" "chunks b = pre @ c # rest" "list_all (chunk_ok nd b) pre"
    "position c \<le> n_rbytes nd" "now c > upload_start b + max_upload_time nd"
  shows "status_of (ingest nd req b) = Some 408"
  using assms read_chunks_skip [of nd b pre h "c # rest"]
  by (simp add: ingest_body read_body_def status_of_def http_def)

lemma ingest_length_mismatch:
  assumes "reaches_body nd req h" "list_all (chunk_ok nd b) (chunks b)"
    "content_length req = Some l" "int_of nd l = Some n"
  shows "(final_position b < n \<longrightarrow> status_of (ingest nd req b) = Some 499)
       \<and> (final_position b > n \<longrightarrow> status_of (ingest nd req b) = Some 400)"
  using assms read_chunks_skip [of nd b "chunks b" h "[]"]
  by (simp add: ingest_body read_body_def status_of_def http_def)

text \<open>
  C5. Each precondition failure of the ingestion, when it is the first check to fail,
  yields the stated status: a missing (or empty) \<open>x-zerocloud-id\<close> gives 500; an absent
  \<open>Content-Type\<close> or one outside the tar MIME set gives 400, for a request with a job id, a
  valid path and no \<open>Content-Length\<close> above \<open>rbytes\<close>; and for a request that passes the
  checks before the body: the first chunk at which the body position exceeds \<open>rbytes\<close>
  gives 413, the first chunk at which the clock exceeds the upload deadline gives 408, and
  after a body read without such a failure a position below \<open>Content-Length\<close> gives 499
  and a position above it gives 400.
\<close>

theorem ingest_precondition_failures:
  "(\<not> truthy (x_zerocloud_id req) \<longrightarrow> status_of (ingest nd req b) = Some 500)
   \<and> (truthy (x_zerocloud_id req) \<and> name_and_placement req = Inr pl
       \<and> (content_length req = None
           \<or> (\<exists>l n. content_length req = Some l \<and> int_of nd l = Some n \<and> n \<le> n_rbytes nd))
       \<and> (content_type req = None \<or> (\<exists>ct. content_type req = Some ct \<and> ct \<notin> set TAR_MIMES))
       \<longrightarrow> status_of (ingest nd req b) = Some 400)
   \<and> (reaches_body nd req h \<and> chunks b = pre @ c # rest \<and> list_all (chunk_ok nd b) pre
       \<and> position c > n_rbytes nd
       \<longrightarrow> status_of (ingest nd req b) = Some 413)
   \<and> (reaches_body nd req h \<and> chunks b = pre @ c # rest \<and> list_all (chunk_ok nd b) pre
       \<and> position c \<le> n_rbytes nd \<and> now c > upload_start b + max_upload_time nd
       \<longrightarrow> status_of (ingest nd req b) = Some 408)
   \<and> (reaches_body nd req h \<and> list_all (chunk_ok nd b) (chunks b)
       \<and> content_length req = Some l \<and> int_of nd l = Some n \<and> final_position b < n
       \<longrightarrow> status_of (ingest nd req b) = Some 499)
   \<and> (reaches_body nd req h \<and> list_all (chunk_ok nd b) (chunks b)
       \<and> content_length req = Some l \<and> int_of nd l = Some n \<and> final_position b > n
       \<longrightarrow> status_of (ingest nd req b) = Some 400)"
  using ingest_no_job_id [of req nd b] ingest_content_type [of req pl nd b]
    ingest_too_large [of nd req h b pre c rest] ingest_timeout [of nd req h b pre c rest]
    ingest_length_mismatch [of nd req h b l n]
  by blast

lemma digits_512: "digits_to_int ''512'' = Some 512"
  by (simp add: digits_to_int_def less_eq_char_def)

lemma ex_reaches_body: "reaches_body ex_node ex_request (initial_nexe_headers ''Policy-0'')"
  by (simp add: reaches_body_def check_headers_def bind_local_object_def check_pool_def
      ex_node_def ex_request_def truthy_def TAR_MIMES_def Let_def digits_512 lower_def
      less_eq_char_def)

theorem ingest_precondition_failures_witness:
  "status_of (ingest ex_node (ex_request\<lparr>x_zerocloud_id := None\<rparr>) (ex_body 512 1 512)) = Some 500
   \<and> status_of (ingest ex_node (ex_request\<lparr>content_type := Some ''text/plain''\<rparr>) (ex_body 512 1 512))
       = Some 400
   \<and> status_of (ingest ex_node ex_request (ex_body 2048 1 2048)) = Some 413
   \<and> status_of (ingest ex_node ex_request (ex_body 512 61 512)) = Some 408
   \<and> status_of (ingest ex_node ex_request (ex_body 100 1 100)) = Some 499
   \<and> status_of (ingest ex_node ex_request (ex_body 600 1 600)) = Some 400"
proof -
  note h = ex_reaches_body
  have p: "name_and_placement ex_request = Inr \<lparr>pl_device = ''sda1'', pl_partition = ''0'',
      pl_account = ''a'', pl_container = ''c'', pl_obj = ''o''\<rparr>"
    and l: "content_length ex_request = Some ''512''" "int_of ex_node ''512'' = Some 512"
    by (simp_all add: ex_request_def ex_node_def digits_512)
  from ingest_precondition_failures
      [of "ex_request\<lparr>x_zerocloud_id := None\<rparr>" ex_node "ex_body 512 1 512"]
  have 1: "status_of (ingest ex_node (ex_request\<lparr>x_zerocloud_id := None\<rparr>) (ex_body 512 1 512)) = Some 500"
    by (simp add: truthy_def)
  from ingest_precondition_failures
      [of "ex_request\<lparr>content_type := Some ''text/plain''\<rparr>" ex_node "ex_body 512 1 512"
          "\<lparr>pl_device = ''sda1'', pl_partition = ''0'', pl_account = ''a'',
            pl_container = ''c'', pl_obj = ''o''\<rparr>"] p l
  have 2: "status_of (ingest ex_node (ex_request\<lparr>content_type := Some ''text/plain''\<rparr>) (ex_body 512 1 512))
       = Some 400"
    by (simp add: truthy_def ex_request_def TAR_MIMES_def ex_node_def)
  from ingest_precondition_failures
      [of ex_request ex_node "ex_body 2048 1 2048" _ "initial_nexe_headers ''Policy-0''" "[]"
          "\<lparr>position = 2048, now = 1, untar = None\<rparr>" "[]"] h
  have 3: "status_of (ingest ex_node ex_request (ex_body 2048 1 2048)) = Some 413"
    by (simp add: ex_body_def ex_node_def)
  from ingest_precondition_failures
      [of ex_request ex_node "ex_body 512 61 512" _ "initial_nexe_headers ''Policy-0''" "[]"
          "\<lparr>position = 512, now = 61, untar = None\<rparr>" "[]"] h
  have 4: "status_of (ingest ex_node ex_request (ex_body 512 61 512)) = Some 408"
    by (simp add: ex_body_def ex_node_def)
  from ingest_precondition_failures
      [of ex_request ex_node "ex_body 100 1 100" _ "initial_nexe_headers ''Policy-0''" _ _ _
          "''512''" 512] h l
  have 5: "status_of (ingest ex_node ex_request (ex_body 100 1 100)) = Some 499"
    by (simp add: ex_body_def ex_node_def chunk_ok_def)
  from ingest_precondition_failures
      [of ex_request ex_node "ex_body 600 1 600" _ "initial_nexe_headers ''Policy-0''" _ _ _
          "''512''" 512] h l
  have 6: "status_of (ingest ex_node ex_request (ex_body 600 1 600)) = Some 400"
    by (simp add: ex_body_def ex_node_def chunk_ok_def)
  from 1 2 3 4 5 6 show ?thesis by simp
qed

text \<open>
  C9 (as the code has it). For every execution request that names an object, passes the
  header checks, and whose disk-file device is unavailable, \<open>zerovm_query\<close> responds 404
  when the \<open>x-nexe-colocated\<close> header is present with a non-empty value, and 507 when the
  header is absent or empty.
\<close>

theorem device_unavailable_status:
  assumes "check_headers nd req = Inr (job_id, pl, h)"
    and "pl_obj pl \<noteq> []"
    and "\<not> dev_path nd (pl_device pl)"
  shows "status_of (ingest nd req b)
           = Some (if x_nexe_colocated req \<noteq> None \<and> x_nexe_colocated req \<noteq> Some []
                   then 404 else 507)"
  using assms
  by (auto simp: ingest_def bind_local_object_def status_of_def http_def truthy_def Let_def
      split: option.splits)

lemma ex_check_headers:
  "check_headers (ex_node\<lparr>dev_path := f\<rparr>) (ex_request\<lparr>x_nexe_colocated := v\<rparr>)
     = Inr (''job-1'', \<lparr>pl_device = ''sda1'', pl_partition = ''0'', pl_account = ''a'',
             pl_container = ''c'', pl_obj = ''o''\<rparr>, initial_nexe_headers ''Policy-0'')"
  by (simp add: check_headers_def ex_node_def ex_request_def truthy_def TAR_MIMES_def Let_def
      digits_512)

theorem device_unavailable_status_witness:
  "status_of (ingest (ex_node\<lparr>dev_path := (\<lambda>d. False)\<rparr>)
      (ex_request\<lparr>x_nexe_colocated := Some ''salt:10.0.0.1:6000''\<rparr>) (ex_body 512 1 512)) = Some 404
   \<and> status_of (ingest (ex_node\<lparr>dev_path := (\<lambda>d. False)\<rparr>)
      (ex_request\<lparr>x_nexe_colocated := None\<rparr>) (ex_body 512 1 512)) = Some 507"
proof -
  note c = ex_check_headers [of "\<lambda>d. False"]
  from device_unavailable_status [OF c [of "Some ''salt:10.0.0.1:6000''"], of "ex_body 512 1 512"]
    device_unavailable_status [OF c [of None], of "ex_body 512 1 512"]
  show ?thesis by simp
qed

text \<open>
  The claim as worded fails for a request that carries the header with an empty value:
  the response is 507.
\<close>

theorem device_unavailable_status_counterexample:
  "x_nexe_colocated (ex_request\<lparr>x_nexe_colocated := Some []\<rparr>) \<noteq> None
   \<and> status_of (ingest (ex_node\<lparr>dev_path := (\<lambda>d. False)\<rparr>)
        (ex_request\<lparr>x_nexe_colocated := Some []\<rparr>) (ex_body 512 1 512)) = Some 507"
  by (simp add: ingest_def bind_local_object_def status_of_def http_def truthy_def Let_def
      ex_check_headers check_headers_def ex_node_def ex_request_def TAR_MIMES_def digits_512)

section \<open>The validation marker\<close>

lemma split_lf_nonempty: "split_lf n s \<noteq> []"
  by (cases n) simp_all

lemma validate_true:
  assumes "validate py_int maxnexe store req result = (VBool True, store')"
  shows "\<exists>pl md etag out err.
           name_and_placement req = Inr pl \<and> mounted store (pl_device pl)
           \<and> objects store pl = Some md \<and> md ''ETag'' = Some etag
           \<and> result = (0, out, err) \<and> py_int (hd (split_lf 1 out)) = Some 0
           \<and> store' = store\<lparr>objects := (objects store)(pl \<mapsto> md(''Validated'' \<mapsto> etag))\<rparr>"
proof (cases "name_and_placement req")
  case (Inl e)
  with assms show ?thesis by (simp add: validate_def split: if_splits)
next
  case (Inr pl)
  obtain rc out err where res: "result = (rc, out, err)" by (cases result)
  from assms Inr res show ?thesis
    by (simp add: validate_def split: if_splits option.splits)
qed

lemma is_validated_after:
  assumes "name_and_placement req = Inr pl" "mounted store (pl_device pl)"
    "etag \<noteq> []"
  shows "is_validated (store\<lparr>objects := (objects store)(pl \<mapsto> md(''Validated'' \<mapsto> etag, ''ETag'' \<mapsto> etag))\<rparr>) req
           = VBool True"
  using assms by (simp add: is_validated_def truthy_def)

lemma is_validated_true:
  assumes "is_validated store req = VBool True"
  shows "\<exists>pl md v. name_and_placement req = Inr pl \<and> objects store pl = Some md
           \<and> md ''Validated'' = Some v \<and> md ''ETag'' = Some v"
proof (cases "name_and_placement req")
  case (Inl e)
  with assms show ?thesis by (simp add: is_validated_def split: if_splits)
next
  case (Inr pl)
  with assms show ?thesis
    by (auto simp: is_validated_def truthy_def Let_def split: if_splits option.splits)
qed

text \<open>
  C8. When \<open>validate\<close> returns \<open>True\<close>, the sandbox run returned code 0, the validator field
  of its report parsed to 0, and the object's metadata now has \<open>Validated\<close> equal to the
  object's \<open>ETag\<close>; \<open>is_validated\<close> on the same object right afterwards returns \<open>True\<close>.
  The \<open>ETag\<close> of a stored object is a non-empty string: the object server and
  \<open>_finalize_local_file\<close> write MD5 digests of 32 characters only. \<open>is_validated\<close> returns
  \<open>True\<close> only when the \<open>Validated\<close> marker exists and equals the current \<open>ETag\<close>.
\<close>

theorem validate_roundtrip:
  "(validate py_int maxnexe store req result = (VBool True, store') \<longrightarrow>
      (\<exists>pl md etag out err.
          name_and_placement req = Inr pl \<and> objects store pl = Some md
          \<and> md ''ETag'' = Some etag
          \<and> result = (0, out, err) \<and> py_int (hd (split_lf 1 out)) = Some 0
          \<and> objects store' pl = Some (md(''Validated'' \<mapsto> etag))
          \<and> (etag \<noteq> [] \<longrightarrow> is_validated store' req = VBool True)))
   \<and> (is_validated store req = VBool True \<longrightarrow>
      (\<exists>pl md v. name_and_placement req = Inr pl \<and> objects store pl = Some md
          \<and> md ''Validated'' = Some v \<and> md ''ETag'' = Some v))"
proof (intro conjI impI)
  assume v: "validate py_int maxnexe store req result = (VBool True, store')"
  from validate_true [OF v] obtain pl md etag out err where
    f: "name_and_placement req = Inr pl" "mounted store (pl_device pl)"
       "objects store pl = Some md" "md ''ETag'' = Some etag"
       "result = (0, out, err)" "py_int (hd (split_lf 1 out)) = Some 0"
       "store' = store\<lparr>objects := (objects store)(pl \<mapsto> md(''Validated'' \<mapsto> etag))\<rparr>"
    by blast
  have same: "md(''Validated'' \<mapsto> etag) = md(''Validated'' \<mapsto> etag, ''ETag'' \<mapsto> etag)"
    using f(4) by (auto simp: fun_eq_iff)
  have "etag \<noteq> [] \<longrightarrow> is_validated store' req = VBool True"
    using is_validated_after [OF f(1) f(2), where etag = etag and md = md] f(7) same by simp
  with f show "\<exists>pl md etag out err.
          name_and_placement req = Inr pl \<and> objects store pl = Some md
          \<and> md ''ETag'' = Some etag
          \<and> result = (0, out, err) \<and> py_int (hd (split_lf 1 out)) = Some 0
          \<and> objects store' pl = Some (md(''Validated'' \<mapsto> etag))
          \<and> (etag \<noteq> [] \<longrightarrow> is_validated store' req = VBool True)"
    by auto
next
  assume "is_validated store req = VBool True"
  from is_validated_true [OF this]
  show "\<exists>pl md v. name_and_placement req = Inr pl \<and> objects store pl = Some md
          \<and> md ''Validated'' = Some v \<and> md ''ETag'' = Some v" .
qed

theorem validate_roundtrip_witness:
  "validate digits_to_int 268435456 ex_store ex_request
       (0, ''0'' @ [CHR 0x0A] @ ''0'' @ [CHR 0x0A] @ ''0'', [])
     = (VBool True,
        ex_store\<lparr>objects := (objects ex_store)
           (ex_placement \<mapsto> [''Content-Length'' \<mapsto> ''512'',
                               ''ETag'' \<mapsto> ''d41d8cd98f00b204e9800998ecf8427e'',
                               ''Validated'' \<mapsto> ''d41d8cd98f00b204e9800998ecf8427e''])\<rparr>)
   \<and> is_validated
       (ex_store\<lparr>objects := (objects ex_store)
           (ex_placement \<mapsto> [''Content-Length'' \<mapsto> ''512'',
                               ''ETag'' \<mapsto> ''d41d8cd98f00b204e9800998ecf8427e'',
                               ''Validated'' \<mapsto> ''d41d8cd98f00b204e9800998ecf8427e''])\<rparr>)
       ex_request
     = VBool True"
proof -
  let ?store' = "ex_store\<lparr>objects := (objects ex_store)
           (ex_placement \<mapsto> [''Content-Length'' \<mapsto> ''512'',
                               ''ETag'' \<mapsto> ''d41d8cd98f00b204e9800998ecf8427e'',
                               ''Validated'' \<mapsto> ''d41d8cd98f00b204e9800998ecf8427e''])\<rparr>"
  have d: "digits_to_int ''512'' = Some 512" "digits_to_int ''0'' = Some 0"
    by (simp_all add: digits_to_int_def less_eq_char_def)
  have v: "validate digits_to_int 268435456 ex_store ex_request
       (0, ''0'' @ [CHR 0x0A] @ ''0'' @ [CHR 0x0A] @ ''0'', []) = (VBool True, ?store')"
    by (simp add: validate_def ex_store_def ex_request_def ex_placement_def d)
  from validate_roundtrip [of digits_to_int 268435456 ex_store ex_request
      "(0, ''0'' @ [CHR 0x0A] @ ''0'' @ [CHR 0x0A] @ ''0'', [])" ?store'] v
  have "is_validated ?store' ex_request = VBool True"
    by (auto simp: ex_store_def ex_request_def ex_placement_def)
  with v show ?thesis by simp
qed

section \<open>The CDR line of a response\<close>

lemma stamped_differs: "prefix @ '', '' @ line \<noteq> line"
proof
  assume "prefix @ '', '' @ line = line"
  then have "length (prefix @ '', '' @ line) = length line" by simp
  then show False by simp
qed

text \<open>
  C10. Every response of the middleware's own making that carries an \<open>x-nexe-cdr-line\<close>
  header leaves \<open>__call__\<close> with that header rewritten: the elapsed time formatted to three
  decimals, a comma and a space, and then the CDR line the response had; the value is
  never that bare CDR line. Status and body are unchanged, and a response without the
  header gets none.
\<close>

theorem wsgi_call_cdr_line:
  assumes "wsgi_call fmt3 start_time end_time req query app = Own res"
  shows "\<exists>res0. dispatch req query app = Inl res0
          \<and> status res = status res0 \<and> body res = body res0
          \<and> (headers res = None \<longleftrightarrow> headers res0 = None)
          \<and> (\<forall>h. headers res = Some h \<longrightarrow>
                (\<exists>h0. headers res0 = Some h0
                   \<and> x_nexe_cdr_line h
                       = fmt3 (end_time - start_time) @ '', '' @ x_nexe_cdr_line h0
                   \<and> x_nexe_cdr_line h \<noteq> x_nexe_cdr_line h0))"
proof (cases "dispatch req query app")
  case (Inr a)
  with assms show ?thesis by (simp add: wsgi_call_def)
next
  case (Inl res0)
  with assms have res: "res = stamp_cdr_line fmt3 (end_time - start_time) res0"
    by (simp add: wsgi_call_def)
  show ?thesis
  proof (cases "headers res0")
    case None
    with res Inl show ?thesis by (simp add: stamp_cdr_line_def)
  next
    case (Some h0)
    from res Inl Some stamped_differs [of "fmt3 (end_time - start_time)" "x_nexe_cdr_line h0"]
    show ?thesis by (simp add: stamp_cdr_line_def)
  qed
qed

theorem wsgi_call_cdr_line_witness:
  "wsgi_call millis3 10 (12345 / 1000) ex_wsgi_request
      (QReturn \<lparr>status = 200, body = [],
         headers = Some ((initial_nexe_headers ''Policy-0'')
                      \<lparr>x_nexe_cdr_line := ''0 0 0 0 1 5 0 0 0 0''\<rparr>)\<rparr>) (AppReturn [])
     = Own \<lparr>status = 200, body = [],
         headers = Some ((initial_nexe_headers ''Policy-0'')
                      \<lparr>x_nexe_cdr_line := ''2.345, 0 0 0 0 1 5 0 0 0 0''\<rparr>)\<rparr>
   \<and> (\<exists>res0. dispatch ex_wsgi_request
      (QReturn \<lparr>status = 200, body = [],
         headers = Some ((initial_nexe_headers ''Policy-0'')
                      \<lparr>x_nexe_cdr_line := ''0 0 0 0 1 5 0 0 0 0''\<rparr>)\<rparr>) (AppReturn []) = Inl res0
        \<and> status res0 = 200)"
proof -
  have m: "millis3 (469 / 200) = ''2.345''"
    by (simp add: millis3_def Let_def hex_char_def)
  have c: "wsgi_call millis3 10 (12345 / 1000) ex_wsgi_request
      (QReturn \<lparr>status = 200, body = [],
         headers = Some ((initial_nexe_headers ''Policy-0'')
                      \<lparr>x_nexe_cdr_line := ''0 0 0 0 1 5 0 0 0 0''\<rparr>)\<rparr>) (AppReturn [])
     = Own \<lparr>status = 200, body = [],
         headers = Some ((initial_nexe_headers ''Policy-0'')
                      \<lparr>x_nexe_cdr_line := ''2.345, 0 0 0 0 1 5 0 0 0 0''\<rparr>)\<rparr>"
    by (simp add: wsgi_call_def dispatch_def stamp_cdr_line_def ex_wsgi_request_def
        request.defs wsgi_request.defs m initial_nexe_headers_def)
  from wsgi_call_cdr_line [OF c] c show ?thesis by auto
qed

end
